theory Spec2Isabelle
  imports Complex_Main "HOL-Library.Multiset"
begin

section \<open>Values exchanged with the collaborators\<close>

text \<open>
  The scraping API, the extraction API, the completion API and the cache files all carry
  JSON documents, which Python holds as \<open>None\<close>, \<open>bool\<close>, numbers, \<open>str\<close>, \<open>list\<close> and
  \<open>dict\<close>. A \<open>dict\<close> is an association list here; Python dictionaries have unique keys, and
  lookup takes the first binding. Only whole numbers are represented: no function of the
  program computes with a JSON number.
\<close>

datatype json =
    JNull
  | JBool bool
  | JNum int
  | JStr string
  | JArr "json list"
  | JObj "(string \<times> json) list"

text \<open>The exceptions that the modelled functions can let escape or catch.\<close>

datatype exn = JSONDecodeError | ValidationError | TypeError | IndexError | ValueError
  | AttributeError

text \<open>Python truthiness, as used by \<open>if not x\<close>.\<close>

fun truthy :: "json \<Rightarrow> bool" where
  "truthy JNull = False"
| "truthy (JBool b) = b"
| "truthy (JNum n) = (n \<noteq> 0)"
| "truthy (JStr s) = (s \<noteq> [])"
| "truthy (JArr xs) = (xs \<noteq> [])"
| "truthy (JObj kvs) = (kvs \<noteq> [])"

text \<open>\<open>d.get(key)\<close>: the value, \<open>None\<close> for a missing key, AttributeError on a value that is
  no dictionary.\<close>

fun py_get :: "json \<Rightarrow> string \<Rightarrow> exn + json" where
  "py_get (JObj kvs) k = Inr (case map_of kvs k of None \<Rightarrow> JNull | Some v \<Rightarrow> v)"
| "py_get _ k = Inl AttributeError"

subsection \<open>types.py: JobSchema and JobSchemas\<close>

record JobSchema =
  job_title :: string
  sub_division_of_organization :: string
  key_skills :: "string list"
  compensation :: string
  location :: string
  apply_link :: string

record JobSchemas =
  jobs :: "JobSchema list"

text \<open>
  Construction of the two pydantic models from keyword arguments (\<open>JobSchema(**data)\<close>):
  every declared field is required, a \<open>str\<close> field takes a string, \<open>list[str]\<close> a list of
  strings, and keys that are not fields are ignored. Unpacking \<open>**data\<close> on a value that is
  no dictionary is a TypeError; a missing or ill-typed field is a ValidationError.
\<close>

fun as_str :: "json \<Rightarrow> string option" where
  "as_str (JStr s) = Some s"
| "as_str _ = None"

fun as_str_list :: "json \<Rightarrow> string list option" where
  "as_str_list (JArr xs) = those (map as_str xs)"
| "as_str_list _ = None"

definition field :: "(string \<times> json) list \<Rightarrow> string \<Rightarrow> (json \<Rightarrow> 'a option) \<Rightarrow> 'a option" where
  "field kvs k conv = Option.bind (map_of kvs k) conv"

definition validate_job :: "(string \<times> json) list \<Rightarrow> JobSchema option" where
  "validate_job kvs =
     Option.bind (field kvs ''job_title'' as_str) (\<lambda>t.
     Option.bind (field kvs ''sub_division_of_organization'' as_str) (\<lambda>d.
     Option.bind (field kvs ''key_skills'' as_str_list) (\<lambda>ks.
     Option.bind (field kvs ''compensation'' as_str) (\<lambda>c.
     Option.bind (field kvs ''location'' as_str) (\<lambda>l.
     Option.bind (field kvs ''apply_link'' as_str) (\<lambda>a.
       Some \<lparr>job_title = t, sub_division_of_organization = d, key_skills = ks,
             compensation = c, location = l, apply_link = a\<rparr>))))))"

fun JobSchema_init :: "json \<Rightarrow> exn + JobSchema" where
  "JobSchema_init (JObj kvs) =
     (case validate_job kvs of None \<Rightarrow> Inl ValidationError | Some j \<Rightarrow> Inr j)"
| "JobSchema_init _ = Inl TypeError"

text \<open>A job nested in the \<open>jobs\<close> list of \<open>JobSchemas\<close> is validated by pydantic itself, so
  every failure there is a ValidationError.\<close>

fun nested_job :: "json \<Rightarrow> JobSchema option" where
  "nested_job (JObj kvs) = validate_job kvs"
| "nested_job _ = None"

fun as_job_list :: "json \<Rightarrow> JobSchema list option" where
  "as_job_list (JArr xs) = those (map nested_job xs)"
| "as_job_list _ = None"

fun JobSchemas_init :: "json \<Rightarrow> exn + JobSchemas" where
  "JobSchemas_init (JObj kvs) =
     (case field kvs ''jobs'' as_job_list of
        None \<Rightarrow> Inl ValidationError
      | Some js \<Rightarrow> Inr \<lparr>jobs = js\<rparr>)"
| "JobSchemas_init _ = Inl TypeError"

text \<open>\<open>job.model_dump()\<close>: the dictionary of the six fields, in declaration order.\<close>

definition model_dump :: "JobSchema \<Rightarrow> json" where
  "model_dump j = JObj
     [(''job_title'', JStr (job_title j)),
      (''sub_division_of_organization'', JStr (sub_division_of_organization j)),
      (''key_skills'', JArr (map JStr (key_skills j))),
      (''compensation'', JStr (compensation j)),
      (''location'', JStr (location j)),
      (''apply_link'', JStr (apply_link j))]"

section \<open>The rate gate\<close>

text \<open>
  Timestamps are the readings of \<open>time.time()\<close>, idealised as real numbers; the window is
  the deque \<open>request_timestamps\<close>, oldest entry first. A sleep of \<open>d\<close> seconds begun at \<open>now\<close>
  ends no earlier than \<open>now + d\<close>: the environment proposes the next clock reading through
  \<open>resume\<close>, and the reading is never before the deadline.
\<close>

definition sleep_until :: "(real \<Rightarrow> real) \<Rightarrow> real \<Rightarrow> real \<Rightarrow> real" where
  "sleep_until resume now d = max (now + d) (resume (now + d))"

subsection \<open>api.py: wait_for_rate_limit\<close>

text \<open>The first loop: drop timestamps older than the window from the front.\<close>

fun evict :: "real \<Rightarrow> int \<Rightarrow> real list \<Rightarrow> real list" where
  "evict current_time window_size [] = []"
| "evict current_time window_size (t # ts) =
     (if t < current_time - real_of_int window_size
      then evict current_time window_size ts else t # ts)"

text \<open>The result is the window, the clock reading on return and the sleeps performed.\<close>

definition wait_for_rate_limit ::
  "(real \<Rightarrow> real) \<Rightarrow> int \<Rightarrow> int \<Rightarrow> real \<Rightarrow> real list \<Rightarrow> exn + (real list \<times> real \<times> real list)" where
  "wait_for_rate_limit resume rate_limit window_size current_time request_timestamps =
     (let w = evict current_time window_size request_timestamps in
      if rate_limit \<le> int (length w) then
        (case w of
           [] \<Rightarrow> Inl IndexError
         | oldest # _ \<Rightarrow>
             (let sleep_time = oldest - (current_time - real_of_int window_size) + 1 / 10 in
              if sleep_time > 0
              then Inr (w, sleep_until resume current_time sleep_time, [sleep_time])
              else Inr (w, current_time, [])))
      else Inr (w, current_time, []))"

subsection \<open>services.py: the rate-limit loop of extract_job_data_async\<close>

text \<open>
  Lines 90 to 98, run by one task with no other task touching the window meanwhile.
  \<open>slept\<close> accumulates the sleeps performed, oldest first.
\<close>

function rate_limit_loop ::
  "(real \<Rightarrow> real) \<Rightarrow> int \<Rightarrow> int \<Rightarrow> real \<Rightarrow> real list \<Rightarrow> real list
     \<Rightarrow> exn + (real list \<times> real \<times> real list)" where
  "rate_limit_loop resume rate_limit window_size current_time request_timestamps slept =
     (if rate_limit \<le> int (length request_timestamps) then
        (case request_timestamps of
           [] \<Rightarrow> Inl IndexError
         | oldest_time # rest \<Rightarrow>
             if oldest_time > current_time - real_of_int window_size then
               (let wait_time = oldest_time - (current_time - real_of_int window_size) + 1 / 10 in
                rate_limit_loop resume rate_limit window_size
                  (sleep_until resume current_time wait_time) request_timestamps
                  (slept @ [wait_time]))
             else rate_limit_loop resume rate_limit window_size current_time rest slept)
      else Inr (request_timestamps, current_time, slept))"
  by pat_completeness auto
termination
  by (relation "measure (\<lambda>(resume, R, W, now, w, sl).
        2 * length w + (if w \<noteq> [] \<and> hd w > now - real_of_int W then 1 else 0))")
     (auto simp: sleep_until_def Let_def)

section \<open>The link extractor\<close>

text \<open>
  One call of \<open>firecrawl.extract([link], ...)\<close> either raises or returns a value. Log
  records carry their level and the message without the rendering of the response.
\<close>

datatype api_outcome = ApiRaises | ApiReturns json

datatype level = INFO | WARNING | ERROR

type_synonym log_record = "level \<times> string"

subsection \<open>services.py: extract_job_data\<close>

definition extract_job_data ::
  "string \<Rightarrow> (string \<Rightarrow> api_outcome) \<Rightarrow> JobSchema option \<times> log_record list" where
  "extract_job_data link firecrawl_extract =
     (case firecrawl_extract link of
        ApiRaises \<Rightarrow> (None, [(ERROR, ''Failed to extract data from '' @ link)])
      | ApiReturns result \<Rightarrow>
          (case py_get result ''success'' of
             Inl e \<Rightarrow> (None, [(ERROR, ''Failed to extract data from '' @ link)])
           | Inr success \<Rightarrow>
               if \<not> truthy success
               then (None, [(WARNING, ''Failed to extract data from '' @ link)])
               else
                 (case py_get result ''data'' of
                    Inl e \<Rightarrow> (None, [(ERROR, ''Failed to extract data from '' @ link)])
                  | Inr data \<Rightarrow>
                      if \<not> truthy data
                      then (None, [(WARNING, ''No data extracted from '' @ link)])
                      else
                        (case JobSchema_init data of
                           Inl e \<Rightarrow> (None, [(ERROR, ''Failed to extract data from '' @ link)])
                         | Inr job \<Rightarrow> (Some job, [])))))"

subsection \<open>services.py: extract_job_data_async, from the return of the API call\<close>

text \<open>
  Lines 100 to 130: the \<open>try\<close> block, given the outcome of the API call, the clock reading
  when the call has returned and the shared window. The timestamp is appended on line 124,
  before \<open>JobSchema(**data)\<close> is evaluated on line 126.
\<close>

definition extract_completion ::
  "string \<Rightarrow> api_outcome \<Rightarrow> real \<Rightarrow> real list
     \<Rightarrow> JobSchema option \<times> real list \<times> log_record list" where
  "extract_completion link outcome now request_timestamps =
     (case outcome of
        ApiRaises \<Rightarrow>
          (None, request_timestamps, [(ERROR, ''Failed to extract data from '' @ link)])
      | ApiReturns result \<Rightarrow>
          (case py_get result ''success'' of
             Inl e \<Rightarrow>
               (None, request_timestamps, [(ERROR, ''Failed to extract data from '' @ link)])
           | Inr success \<Rightarrow>
               if \<not> truthy success
               then (None, request_timestamps,
                     [(WARNING, ''Failed to extract data from '' @ link)])
               else
                 (case py_get result ''data'' of
                    Inl e \<Rightarrow>
                      (None, request_timestamps,
                       [(ERROR, ''Failed to extract data from '' @ link)])
                  | Inr data \<Rightarrow>
                      if \<not> truthy data
                      then (None, request_timestamps,
                            [(WARNING, ''No data extracted from '' @ link)])
                      else
                        (case JobSchema_init data of
                           Inl e \<Rightarrow>
                             (None, request_timestamps @ [now],
                              [(INFO, ''Successfully processed '' @ link),
                               (ERROR, ''Failed to extract data from '' @ link)])
                         | Inr job \<Rightarrow>
                             (Some job, request_timestamps @ [now],
                              [(INFO, ''Successfully processed '' @ link)])))))"

text \<open>
  The response that lets line 124 be reached: the API reported success and returned a
  non-empty payload. It is the only case in which a timestamp is recorded.
\<close>

definition served :: "api_outcome \<Rightarrow> bool" where
  "served outcome =
     (case outcome of
        ApiRaises \<Rightarrow> False
      | ApiReturns result \<Rightarrow>
          (case py_get result ''success'' of
             Inl e \<Rightarrow> False
           | Inr success \<Rightarrow>
               truthy success \<and>
               (case py_get result ''data'' of Inl e \<Rightarrow> False | Inr data \<Rightarrow> truthy data)))"

subsection \<open>services.py: extract_job_data_async, run by one task alone\<close>



section \<open>The concurrent scheduler\<close>

text \<open>
  \<open>links[:max_jobs]\<close>: Python's slice, which for a negative bound drops that many elements
  from the end.
\<close>

definition py_prefix :: "'a list \<Rightarrow> int \<Rightarrow> 'a list" where
  "py_prefix xs k = (if 0 \<le> k then take (nat k) xs else take (length xs - nat (- k)) xs)"

text \<open>
  Between two suspension points a task runs alone. The rate-limit loop, entered or
  re-entered with the clock reading \<open>current_time\<close>, runs until it leaves the loop, has to
  sleep, or reads the front of an empty deque.
\<close>

datatype gate = Pass "real list" | Sleep real "real list" | GateRaise

fun gate_run :: "int \<Rightarrow> int \<Rightarrow> real \<Rightarrow> real list \<Rightarrow> gate" where
  "gate_run rate_limit window_size current_time [] =
     (if rate_limit \<le> 0 then GateRaise else Pass [])"
| "gate_run rate_limit window_size current_time (oldest_time # rest) =
     (if rate_limit \<le> int (length (oldest_time # rest)) then
        if oldest_time > current_time - real_of_int window_size
        then Sleep (oldest_time - (current_time - real_of_int window_size) + 1 / 10)
               (oldest_time # rest)
        else gate_run rate_limit window_size current_time rest
      else Pass (oldest_time # rest))"

text \<open>
  A task of \<open>process_job_links_async\<close> waits for the semaphore (\<open>Queued\<close>), sleeps inside the
  rate-limit loop until a deadline while holding the semaphore, has its API call
  outstanding while holding the semaphore (\<open>Calling\<close>), or is over, with its result or
  with the exception that escaped it.
\<close>

datatype task_state = Queued | Sleeping real | Calling | Done "JobSchema option" | Raised exn

record sched =
  tasks :: "(string \<times> task_state) list"
  permits :: nat
  window :: "real list"
  clock :: real
  results :: "JobSchema list"
  issued :: "string list"

text \<open>\<open>issued\<close> lists the links for which the extraction API has been called, in call order;
  \<open>results\<close> is the list that \<open>process_links\<close> builds in completion order.\<close>

definition run_gate :: "int \<Rightarrow> int \<Rightarrow> nat \<Rightarrow> string \<Rightarrow> sched \<Rightarrow> sched" where
  "run_gate rate_limit window_size i link s =
     (case gate_run rate_limit window_size (clock s) (window s) of
        Pass w \<Rightarrow>
          s\<lparr>tasks := (tasks s)[i := (link, Calling)], window := w, issued := issued s @ [link]\<rparr>
      | Sleep d w \<Rightarrow>
          s\<lparr>tasks := (tasks s)[i := (link, Sleeping (clock s + d))], window := w\<rparr>
      | GateRaise \<Rightarrow>
          s\<lparr>tasks := (tasks s)[i := (link, Raised IndexError)], window := [],
            permits := permits s + 1\<rparr>)"

definition complete_call :: "(string \<Rightarrow> api_outcome) \<Rightarrow> nat \<Rightarrow> string \<Rightarrow> sched \<Rightarrow> sched" where
  "complete_call firecrawl_extract i link s =
     (case extract_completion link (firecrawl_extract link) (clock s) (window s) of
        (r, w, lg) \<Rightarrow>
          s\<lparr>tasks := (tasks s)[i := (link, Done r)], window := w, permits := permits s + 1,
            results := results s @ (case r of None \<Rightarrow> [] | Some job \<Rightarrow> [job])\<rparr>)"

text \<open>
  One step of the event loop: time passes; a queued task takes a permit and runs the gate;
  a sleeper whose deadline has passed runs the gate again; an outstanding call returns,
  the task finishes, releases its permit and its result is collected.
\<close>

inductive step :: "(string \<Rightarrow> api_outcome) \<Rightarrow> int \<Rightarrow> int \<Rightarrow> sched \<Rightarrow> sched \<Rightarrow> bool"
  for firecrawl_extract :: "string \<Rightarrow> api_outcome" and rate_limit :: int and window_size :: int
where
  tick: "0 \<le> d \<Longrightarrow> step firecrawl_extract rate_limit window_size s (s\<lparr>clock := clock s + d\<rparr>)"
| enter: "i < length (tasks s) \<Longrightarrow> tasks s ! i = (link, Queued) \<Longrightarrow> 0 < permits s \<Longrightarrow>
     step firecrawl_extract rate_limit window_size s
       (run_gate rate_limit window_size i link (s\<lparr>permits := permits s - 1\<rparr>))"
| wake: "i < length (tasks s) \<Longrightarrow> tasks s ! i = (link, Sleeping deadline) \<Longrightarrow>
     deadline \<le> clock s \<Longrightarrow>
     step firecrawl_extract rate_limit window_size s (run_gate rate_limit window_size i link s)"
| return: "i < length (tasks s) \<Longrightarrow> tasks s ! i = (link, Calling) \<Longrightarrow>
     step firecrawl_extract rate_limit window_size s (complete_call firecrawl_extract i link s)"

text \<open>
  \<open>process_job_links_async\<close> starts with an empty window, a semaphore of \<open>max_concurrent\<close>
  permits (a negative value is refused by \<open>asyncio.Semaphore\<close>) and one task per link of
  \<open>links[:max_jobs]\<close>.
\<close>

definition process_job_links_async ::
  "string list \<Rightarrow> int \<Rightarrow> int \<Rightarrow> real \<Rightarrow> exn + sched" where
  "process_job_links_async links max_jobs max_concurrent t0 =
     (if max_concurrent < 0 then Inl ValueError
      else Inr \<lparr>tasks = map (\<lambda>link. (link, Queued)) (py_prefix links max_jobs),
                permits = nat max_concurrent, window = [], clock = t0,
                results = [], issued = []\<rparr>)"

definition runs_to ::
  "(string \<Rightarrow> api_outcome) \<Rightarrow> int \<Rightarrow> int \<Rightarrow> string list \<Rightarrow> int \<Rightarrow> int \<Rightarrow> real \<Rightarrow> sched \<Rightarrow> bool" where
  "runs_to firecrawl_extract rate_limit window_size links max_jobs max_concurrent t0 s =
     (\<exists>s0. process_job_links_async links max_jobs max_concurrent t0 = Inr s0 \<and>
           (step firecrawl_extract rate_limit window_size)\<^sup>*\<^sup>* s0 s)"

fun is_done :: "task_state \<Rightarrow> bool" where
  "is_done (Done r) = True"
| "is_done _ = False"


fun holds_permit :: "task_state \<Rightarrow> bool" where
  "holds_permit (Sleeping d) = True"
| "holds_permit Calling = True"
| "holds_permit _ = False"

fun called_api :: "task_state \<Rightarrow> bool" where
  "called_api Calling = True"
| "called_api (Done r) = True"
| "called_api _ = False"


definition outstanding :: "sched \<Rightarrow> nat" where
  "outstanding s = length (filter (\<lambda>t. snd t = Calling) (tasks s))"

definition holders :: "sched \<Rightarrow> nat" where
  "holders s = length (filter (\<lambda>t. holds_permit (snd t)) (tasks s))"

text \<open>The jobs delivered by the tasks that are done, and the links of the tasks whose API
  call has been made, both in task order.\<close>

fun delivered :: "string \<times> task_state \<Rightarrow> JobSchema list" where
  "delivered (link, Done (Some job)) = [job]"
| "delivered _ = []"

fun called :: "string \<times> task_state \<Rightarrow> string list" where
  "called (link, st) = (if called_api st then [link] else [])"

text \<open>A task that is done has the result that \<open>extract_job_data\<close> gives for its link.\<close>

definition done_right :: "(string \<Rightarrow> api_outcome) \<Rightarrow> string \<times> task_state \<Rightarrow> bool" where
  "done_right api t = (case snd t of Done r \<Rightarrow> r = fst (extract_job_data (fst t) api) | _ \<Rightarrow> True)"


section \<open>The cached operations\<close>

text \<open>
  The output directory is a map from paths to file contents. The three counters record
  how often each expensive operation was invoked: the scraping API, the concurrent
  extraction run and the completion API. \<open>json.load\<close> and \<open>json.dump\<close> belong to Python's
  library and are parameters: \<open>json_loads\<close> yields \<open>None\<close> where the library raises
  JSONDecodeError.
\<close>

record world =
  files :: "string \<Rightarrow> string option"
  scrape_calls :: nat
  batch_runs :: nat
  completion_calls :: nat

definition safe_url :: "string \<Rightarrow> string" where
  "safe_url url = map (\<lambda>c. if c = CHR ''/'' then CHR ''_'' else c) url"

definition scrape_result_path :: "string \<Rightarrow> string \<Rightarrow> string" where
  "scrape_result_path output_dir url = output_dir @ ''/scrape_result-'' @ safe_url url @ ''.json''"

definition processed_jobs_path :: "string \<Rightarrow> string \<Rightarrow> string" where
  "processed_jobs_path output_dir url = output_dir @ ''/processed_jobs-'' @ safe_url url @ ''.json''"

definition recommendations_path :: "string \<Rightarrow> string \<Rightarrow> string" where
  "recommendations_path output_dir url =
     output_dir @ ''/recommendations-'' @ safe_url url @ ''.json''"

text \<open>\<open>key in x\<close>: a key of a dictionary, an element of a list, a substring of a string;
  a TypeError on anything else.\<close>

fun has_infix :: "string \<Rightarrow> string \<Rightarrow> bool" where
  "has_infix k [] = (k = [])"
| "has_infix k (c # cs) = (take (length k) (c # cs) = k \<or> has_infix k cs)"

fun py_in :: "string \<Rightarrow> json \<Rightarrow> exn + bool" where
  "py_in k (JObj kvs) = Inr (k \<in> set (map fst kvs))"
| "py_in k (JArr xs) = Inr (JStr k \<in> set xs)"
| "py_in k (JStr s) = Inr (has_infix k s)"
| "py_in k _ = Inl TypeError"

subsection \<open>services.py: scrape_jobs_page\<close>

text \<open>Python's \<open>None\<close> result is \<open>JNull\<close>.\<close>

definition scrape_jobs_page ::
  "(string \<Rightarrow> json option) \<Rightarrow> (json \<Rightarrow> string) \<Rightarrow> (string \<Rightarrow> api_outcome)
     \<Rightarrow> string \<Rightarrow> string \<Rightarrow> world \<Rightarrow> (exn + json) \<times> world" where
  "scrape_jobs_page json_loads json_dumps firecrawl_scrape url output_dir wd =
     (let scrape_path = scrape_result_path output_dir url in
      case files wd scrape_path of
        Some text \<Rightarrow>
          (case json_loads text of
             None \<Rightarrow> (Inl JSONDecodeError, wd)
           | Some cached \<Rightarrow> (Inr cached, wd))
      | None \<Rightarrow>
          (let wd1 = wd\<lparr>scrape_calls := scrape_calls wd + 1\<rparr> in
           case firecrawl_scrape url of
             ApiRaises \<Rightarrow> (Inr JNull, wd1)
           | ApiReturns scrape_result \<Rightarrow>
               if \<not> truthy scrape_result then (Inr JNull, wd1)
               else
                 (case py_in ''json'' scrape_result of
                    Inl e \<Rightarrow> (Inr JNull, wd1)
                  | Inr present \<Rightarrow>
                      if \<not> present then (Inr JNull, wd1)
                      else (Inr scrape_result,
                            wd1\<lparr>files := (files wd1)(scrape_path \<mapsto> json_dumps scrape_result)\<rparr>))))"

subsection \<open>services.py: process_job_links\<close>

text \<open>\<open>[JobSchema(**job) for job in data]\<close>: the first failing element raises. Iterating a
  dictionary or a string yields strings, on which \<open>**job\<close> is a TypeError.\<close>

fun init_each :: "json list \<Rightarrow> exn + JobSchema list" where
  "init_each [] = Inr []"
| "init_each (x # xs) =
     (case JobSchema_init x of
        Inl e \<Rightarrow> Inl e
      | Inr j \<Rightarrow> (case init_each xs of Inl e \<Rightarrow> Inl e | Inr js \<Rightarrow> Inr (j # js)))"

fun jobs_of_iterable :: "json \<Rightarrow> exn + JobSchema list" where
  "jobs_of_iterable (JArr xs) = init_each xs"
| "jobs_of_iterable (JObj kvs) = (if kvs = [] then Inr [] else Inl TypeError)"
| "jobs_of_iterable (JStr s) = (if s = [] then Inr [] else Inl TypeError)"
| "jobs_of_iterable _ = Inl TypeError"

text \<open>
  \<open>run_async\<close> is what \<open>asyncio.run(process_job_links_async(...))\<close> yields when it is run: the
  results of a finished run of the scheduler, or the exception that escaped it. Nothing
  is written on this path.
\<close>

definition process_job_links ::
  "(string \<Rightarrow> json option) \<Rightarrow> (exn + JobSchema list) \<Rightarrow> string \<Rightarrow> string \<Rightarrow> world
     \<Rightarrow> (exn + JobSchema list) \<times> world" where
  "process_job_links json_loads run_async url output_dir wd =
     (case files wd (processed_jobs_path output_dir url) of
        Some text \<Rightarrow>
          (case json_loads text of
             None \<Rightarrow> (Inl JSONDecodeError, wd)
           | Some data \<Rightarrow> (jobs_of_iterable data, wd))
      | None \<Rightarrow> (run_async, wd\<lparr>batch_runs := batch_runs wd + 1\<rparr>))"

subsection \<open>services.py: get_job_recommendations\<close>

text \<open>
  The completion API raises, returns no choice, or returns a first choice whose content
  is a string or \<open>None\<close>. \<open>str.strip()\<close> removes white space at both ends. A character
  of a modelled string is a code point below 256, and of the characters that Python counts
  as white space twelve are below 256: U+0009 to U+000D, U+001C to U+0020, U+0085 and
  U+00A0.
\<close>

datatype completion = CompletionRaises | NoChoices | Content "string option"

definition is_space :: "char \<Rightarrow> bool" where
  "is_space c = (c \<in> set [CHR '' '', CHR 0x09, CHR 0x0A, CHR 0x0B, CHR 0x0C, CHR 0x0D,
                           CHR 0x1C, CHR 0x1D, CHR 0x1E, CHR 0x1F, CHR 0x85, CHR 0xA0])"

definition py_strip :: "string \<Rightarrow> string" where
  "py_strip s = rev (dropWhile is_space (rev (dropWhile is_space s)))"

text \<open>Lines 243 to 290: the request, taken when no cached answer was returned.\<close>

definition request_recommendations ::
  "(string \<Rightarrow> json option) \<Rightarrow> (json \<Rightarrow> string) \<Rightarrow> completion \<Rightarrow> string \<Rightarrow> world
     \<Rightarrow> (exn + JobSchemas option) \<times> world" where
  "request_recommendations json_loads json_dumps answer rec_path wd =
     (let wd1 = wd\<lparr>completion_calls := completion_calls wd + 1\<rparr> in
      case answer of
        CompletionRaises \<Rightarrow> (Inr None, wd1)
      | NoChoices \<Rightarrow> (Inr None, wd1)
      | Content None \<Rightarrow> (Inr None, wd1)
      | Content (Some content) \<Rightarrow>
          (let response_content = py_strip content in
           if response_content = [] then (Inr None, wd1)
           else
             (case json_loads response_content of
                None \<Rightarrow> (Inr None, wd1)
              | Some parsed \<Rightarrow>
                  (case JobSchemas_init parsed of
                     Inl e \<Rightarrow> (Inr None, wd1)
                   | Inr result \<Rightarrow>
                       (Inr (Some result),
                        wd1\<lparr>files := (files wd1)(rec_path \<mapsto>
                          json_dumps (JObj [(''jobs'', JArr (map model_dump (jobs result)))]))\<rparr>)))))"

text \<open>\<open>openai_parse\<close> gives the answer of the completion API to the prompt built from the
  number of recommendations, the resume and the jobs.\<close>

definition get_job_recommendations ::
  "(string \<Rightarrow> json option) \<Rightarrow> (json \<Rightarrow> string) \<Rightarrow> (int \<Rightarrow> string \<Rightarrow> JobSchema list \<Rightarrow> completion)
     \<Rightarrow> string \<Rightarrow> string \<Rightarrow> JobSchema list \<Rightarrow> int \<Rightarrow> string \<Rightarrow> world
     \<Rightarrow> (exn + JobSchemas option) \<times> world" where
  "get_job_recommendations json_loads json_dumps openai_parse resume url js
       num_recommendations output_dir wd =
     (let rec_path = recommendations_path output_dir url;
          answer = openai_parse num_recommendations resume js in
      case files wd rec_path of
        None \<Rightarrow> request_recommendations json_loads json_dumps answer rec_path wd
      | Some text \<Rightarrow>
          (case json_loads text of
             None \<Rightarrow> request_recommendations json_loads json_dumps answer rec_path wd
           | Some (JArr xs) \<Rightarrow>
               (case init_each xs of
                  Inl e \<Rightarrow> (Inl e, wd)
                | Inr cached \<Rightarrow> (Inr (Some \<lparr>jobs = cached\<rparr>), wd))
           | Some data \<Rightarrow>
               (case JobSchemas_init data of
                  Inl e \<Rightarrow> (Inl e, wd)
                | Inr cached \<Rightarrow> (Inr (Some cached), wd))))"

section \<open>Properties of the rate gate\<close>

declare rate_limit_loop.simps [simp del]

lemma sleep_until_ge: "now + d \<le> sleep_until resume now d"
  by (simp add: sleep_until_def)

lemma rate_limit_loop_returns:
  "1 \<le> R \<Longrightarrow> \<exists>w' now' sl. rate_limit_loop resume R W now w sl0 = Inr (w', now', sl)
      \<and> now \<le> now' \<and> int (length w') < R"
proof (induction resume R W now w sl0 rule: rate_limit_loop.induct)
  case (1 resume R W now w sl0)
  show ?case
  proof (cases "R \<le> int (length w)")
    case False
    then show ?thesis by (subst rate_limit_loop.simps) simp
  next
    case True
    with "1.prems" obtain oldest rest where w: "w = oldest # rest" by (cases w) auto
    show ?thesis
    proof (cases "oldest > now - real_of_int W")
      case fresh: True
      define wt where "wt = oldest - (now - real_of_int W) + 1 / 10"
      from "1.IH"(1)[OF True w fresh wt_def "1.prems"]
      obtain w' now' sl where
        r: "rate_limit_loop resume R W (sleep_until resume now wt) w (sl0 @ [wt]) = Inr (w', now', sl)"
        and le: "sleep_until resume now wt \<le> now'" and len: "int (length w') < R" by blast
      have "now \<le> sleep_until resume now wt"
        using sleep_until_ge[of now wt resume] fresh by (simp add: wt_def)
      with r le len True w fresh show ?thesis
        by (subst rate_limit_loop.simps) (simp add: wt_def Let_def)
    next
      case stale: False
      from "1.IH"(2)[OF True w stale "1.prems"]
      obtain w' now' sl where
        "rate_limit_loop resume R W now rest sl0 = Inr (w', now', sl)"
        "now \<le> now'" "int (length w') < R" by blast
      with True w stale show ?thesis
        by (subst rate_limit_loop.simps) simp
    qed
  qed
qed







lemma evict_front: "evict now W w = t # ts \<Longrightarrow> \<not> t < now - real_of_int W"
  by (induction w) (auto split: if_splits)


lemma evict_length: "length (evict now W w) \<le> length w"
  by (induction w) auto

lemma evict_fresh: "sorted w \<Longrightarrow> \<forall>t\<in>set (evict now W w). now - real_of_int W \<le> t"
  by (induction w) auto



lemma gate_run_Sleep:
  "gate_run R W now w = Sleep d w' \<Longrightarrow>
     R \<le> int (length w') \<and> w' \<noteq> [] \<and> hd w' > now - real_of_int W
     \<and> d = hd w' - (now - real_of_int W) + 1 / 10 \<and> (\<exists>pre. w = pre @ w')"
proof (induction R W now w rule: gate_run.induct)
  case (1 R W now)
  then show ?case by (simp split: if_splits)
next
  case (2 R W now t ts)
  show ?case
  proof (cases "R \<le> int (length (t # ts))")
    case False
    with "2.prems" show ?thesis by simp
  next
    case full: True
    show ?thesis
    proof (cases "t > now - real_of_int W")
      case True
      with full "2.prems" have "w' = t # ts" "d = t - (now - real_of_int W) + 1 / 10" by auto
      with full True show ?thesis by auto
    next
      case False
      with full "2.prems" have "gate_run R W now ts = Sleep d w'" by simp
      from "2.IH"[OF full False this] obtain pre where
        "R \<le> int (length w')" "w' \<noteq> []" "hd w' > now - real_of_int W"
        "d = hd w' - (now - real_of_int W) + 1 / 10" "ts = pre @ w'" by blast
      then have "t # ts = (t # pre) @ w'" by simp
      with \<open>R \<le> int (length w')\<close> \<open>w' \<noteq> []\<close> \<open>hd w' > now - real_of_int W\<close>
        \<open>d = hd w' - (now - real_of_int W) + 1 / 10\<close> show ?thesis by blast
    qed
  qed
qed

lemma gate_run_Pass:
  "gate_run R W now w = Pass w' \<Longrightarrow> int (length w') < R \<and> (\<exists>pre. w = pre @ w')"
proof (induction R W now w rule: gate_run.induct)
  case (1 R W now)
  then show ?case by (simp split: if_splits)
next
  case (2 R W now t ts)
  show ?case
  proof (cases "R \<le> int (length (t # ts))")
    case False
    with "2.prems" show ?thesis by auto
  next
    case full: True
    with "2.prems" have stale: "\<not> t > now - real_of_int W" by (auto split: if_splits)
    with full "2.prems" have "gate_run R W now ts = Pass w'" by simp
    from "2.IH"[OF full stale this] obtain pre where
      "int (length w') < R" "ts = pre @ w'" by blast
    then have "t # ts = (t # pre) @ w'" by simp
    with \<open>int (length w') < R\<close> show ?thesis by blast
  qed
qed

lemma gate_run_Sleep_fresh:
  assumes "sorted w" "gate_run R W now w = Sleep d w'"
  shows "\<forall>t\<in>set w'. now - real_of_int W < t"
proof -
  from gate_run_Sleep[OF assms(2)] obtain pre where
    ne: "w' \<noteq> []" and hd: "hd w' > now - real_of_int W" and w: "w = pre @ w'" by blast
  from assms(1) w have "sorted w'" by (simp add: sorted_append)
  with ne have "\<forall>t\<in>set w'. hd w' \<le> t" by (cases w') auto
  with hd show ?thesis by fastforce
qed

lemma rate_limit_loop_gate:
  "rate_limit_loop resume R W now w sl =
     (case gate_run R W now w of
        Pass w' \<Rightarrow> Inr (w', now, sl)
      | Sleep d w' \<Rightarrow> rate_limit_loop resume R W (sleep_until resume now d) w' (sl @ [d])
      | GateRaise \<Rightarrow> Inl IndexError)"
proof (induction w)
  case Nil
  show ?case by (subst rate_limit_loop.simps) simp
next
  case (Cons t ts)
  show ?case
    by (subst rate_limit_loop.simps) (simp add: Cons Let_def)
qed

text \<open>
  Claim C3, as the code has it. \<open>wait_for_rate_limit\<close> drops every entry older than
  \<open>current_time - window_size\<close> from the front before it compares the length of the window
  with \<open>rate_limit\<close>: in a time-ordered window every timestamp that remains is within
  \<open>window_size\<close> seconds of the current time, and the function sleeps exactly when that
  trimmed window holds at least \<open>rate_limit\<close> entries. The loop of
  \<open>extract_job_data_async\<close> compares the length first and drops an expired front entry only
  while the window holds at least \<open>rate_limit\<close> entries: when it sleeps, every timestamp of
  a time-ordered window is within \<open>window_size\<close> seconds of the current time; when it lets
  the request through, the window holds fewer than \<open>rate_limit\<close> entries.
\<close>

theorem rate_window_eviction:
  "sorted w \<Longrightarrow>
     (\<forall>resume w' now' sl. wait_for_rate_limit resume R W now w = Inr (w', now', sl) \<longrightarrow>
        w' = evict now W w \<and> (\<forall>t\<in>set w'. now - real_of_int W \<le> t)
        \<and> (sl \<noteq> [] \<longleftrightarrow> R \<le> int (length w'))) \<and>
     (\<forall>d w'. gate_run R W now w = Sleep d w' \<longrightarrow>
        R \<le> int (length w') \<and> (\<forall>t\<in>set w'. now - real_of_int W < t)) \<and>
     (\<forall>w'. gate_run R W now w = Pass w' \<longrightarrow> int (length w') < R) \<and>
     (\<forall>resume sl0 w' now' sl. rate_limit_loop resume R W now w sl0 = Inr (w', now', sl) \<longrightarrow>
        int (length w') < R)"
proof (intro conjI allI impI)
  fix resume w' now' sl
  assume srt: "sorted w" and r: "wait_for_rate_limit resume R W now w = Inr (w', now', sl)"
  show w': "w' = evict now W w"
    using r by (auto simp: wait_for_rate_limit_def Let_def split: if_splits list.splits)
  show "\<forall>t\<in>set w'. now - real_of_int W \<le> t"
    using evict_fresh[OF srt, of now W] w' by simp
  show "sl \<noteq> [] \<longleftrightarrow> R \<le> int (length w')"
  proof (cases "evict now W w")
    case Nil
    with r w' show ?thesis
      by (auto simp: wait_for_rate_limit_def Let_def split: if_splits)
  next
    case (Cons t ts)
    from evict_front[OF Cons] have "t - (now - real_of_int W) + 1 / 10 > 0" by simp
    with r w' Cons show ?thesis
      by (auto simp: wait_for_rate_limit_def Let_def split: if_splits)
  qed
next
  fix d w'
  assume "sorted w" "gate_run R W now w = Sleep d w'"
  then show "R \<le> int (length w')" "\<forall>t\<in>set w'. now - real_of_int W < t"
    using gate_run_Sleep[of R W now w d w'] gate_run_Sleep_fresh[of w R W now d w'] by auto
next
  fix w'
  assume "gate_run R W now w = Pass w'"
  then show "int (length w') < R" using gate_run_Pass by blast
next
  fix resume sl0 w' now' sl
  assume r: "rate_limit_loop resume R W now w sl0 = Inr (w', now', sl)"
  show "int (length w') < R"
  proof (cases "1 \<le> R")
    case True
    from rate_limit_loop_returns[OF True, of resume W now w sl0] r show ?thesis by auto
  next
    case False
    have "\<And>now sl0. rate_limit_loop resume R W now w sl0 \<noteq> Inr (w', now', sl)"
    proof (induction w)
      case Nil
      from False show ?case by (subst rate_limit_loop.simps) simp
    next
      case (Cons t ts)
      from False have full: "R \<le> int (length (t # ts))" by simp
      show ?case
      proof (cases "t > now - real_of_int W")
        case stale: False
        with full Cons show ?thesis by (subst rate_limit_loop.simps) simp
      next
        case True
        show ?thesis
        proof
          assume a: "rate_limit_loop resume R W now (t # ts) sl0 = Inr (w', now', sl)"
          from a full True
          have b: "rate_limit_loop resume R W
                     (sleep_until resume now (t - (now - real_of_int W) + 1 / 10)) (t # ts)
                     (sl0 @ [t - (now - real_of_int W) + 1 / 10]) = Inr (w', now', sl)"
            by (subst (asm) rate_limit_loop.simps) (simp add: Let_def)
          have stale': "\<not> t > sleep_until resume now (t - (now - real_of_int W) + 1 / 10)
                           - real_of_int W"
            using sleep_until_ge[of now "t - (now - real_of_int W) + 1 / 10" resume] by simp
          from b full stale' Cons show False
            by (subst (asm) rate_limit_loop.simps) simp
        qed
      qed
    qed
    with r show ?thesis by blast
  qed
qed

theorem rate_window_eviction_witness:
  "sorted [900, 950, 990 :: real]
   \<and> evict 1000 60 [900, 950, 990] = [950, 990]
   \<and> wait_for_rate_limit (\<lambda>t. t) 2 60 1000 [900, 950, 990]
       = Inr ([950, 990], 10101 / 10, [101 / 10])
   \<and> gate_run 2 60 1000 [900, 950, 990] = Sleep (101 / 10) [950, 990]
   \<and> 1000 - real_of_int 60 < (950 :: real) \<and> 1000 - real_of_int 60 < (990 :: real)"
  using rate_window_eviction [of "[900, 950, 990]" 2 60 1000]
  by (simp add: wait_for_rate_limit_def sleep_until_def)

text \<open>
  Claim C3 as it is stated fails on the loop of \<open>extract_job_data_async\<close>: with
  \<open>rate_limit = 2\<close> and \<open>window_size = 60\<close>, a window holding the single timestamp \<open>0\<close> is
  consulted at time \<open>1000\<close>, its length decides that the request goes through, and the
  timestamp, \<open>1000\<close> seconds old, is still in it.
\<close>

theorem rate_window_stale_counterexample:
  "rate_limit_loop (\<lambda>t. t) 2 60 1000 [0] [] = Inr ([0], 1000, [])
   \<and> gate_run 2 60 1000 [0] = Pass [0]
   \<and> \<not> (1000 - real_of_int 60 \<le> (0 :: real))"
  by (simp add: rate_limit_loop_gate)


lemma unserved_keeps:
  "\<not> served outcome \<Longrightarrow> fst (snd (extract_completion link outcome now w)) = w"
  by (auto simp: served_def extract_completion_def split: api_outcome.splits sum.splits)
















section \<open>Properties of the link extractor\<close>

text \<open>
  Claim C8. \<open>extract_job_data\<close>, and \<open>extract_job_data_async\<close> from the return of its API
  call, yield \<open>None\<close> and raise nothing in each of four cases: the API call raises; the
  response reports no success; it reports success with an empty or missing payload; the
  payload is rejected by \<open>JobSchema\<close>. Each case leaves a WARNING or ERROR record. In the
  scheduler such a task ends as done with no result: it gives its permit back and the
  collected results stay as they are, so the other tasks go on.
\<close>

theorem extraction_failures_absent:
  "(firecrawl_extract link = ApiRaises \<longrightarrow>
      extract_job_data link firecrawl_extract
        = (None, [(ERROR, ''Failed to extract data from '' @ link)]) \<and>
      extract_completion link (firecrawl_extract link) now w
        = (None, w, [(ERROR, ''Failed to extract data from '' @ link)])) \<and>
   (firecrawl_extract link = ApiReturns result \<and> py_get result ''success'' = Inr ok
      \<and> \<not> truthy ok \<longrightarrow>
      extract_job_data link firecrawl_extract
        = (None, [(WARNING, ''Failed to extract data from '' @ link)]) \<and>
      extract_completion link (firecrawl_extract link) now w
        = (None, w, [(WARNING, ''Failed to extract data from '' @ link)])) \<and>
   (firecrawl_extract link = ApiReturns result \<and> py_get result ''success'' = Inr ok
      \<and> truthy ok \<and> py_get result ''data'' = Inr payload \<and> \<not> truthy payload \<longrightarrow>
      extract_job_data link firecrawl_extract
        = (None, [(WARNING, ''No data extracted from '' @ link)]) \<and>
      extract_completion link (firecrawl_extract link) now w
        = (None, w, [(WARNING, ''No data extracted from '' @ link)])) \<and>
   (firecrawl_extract link = ApiReturns result \<and> py_get result ''success'' = Inr ok
      \<and> truthy ok \<and> py_get result ''data'' = Inr payload \<and> truthy payload
      \<and> JobSchema_init payload = Inl e \<longrightarrow>
      extract_job_data link firecrawl_extract
        = (None, [(ERROR, ''Failed to extract data from '' @ link)]) \<and>
      fst (extract_completion link (firecrawl_extract link) now w) = None \<and>
      (ERROR, ''Failed to extract data from '' @ link)
        \<in> set (snd (snd (extract_completion link (firecrawl_extract link) now w)))) \<and>
   (fst (extract_completion link (firecrawl_extract link) (clock s) (window s)) = None \<longrightarrow>
      tasks (complete_call firecrawl_extract i link s) = (tasks s)[i := (link, Done None)] \<and>
      permits (complete_call firecrawl_extract i link s) = permits s + 1 \<and>
      results (complete_call firecrawl_extract i link s) = results s)"
  by (auto simp: extract_job_data_def extract_completion_def complete_call_def
           split: prod.splits)

theorem extraction_failures_absent_witness:
  "extract_job_data ''a'' (\<lambda>l. ApiRaises) = (None, [(ERROR, ''Failed to extract data from a'')])
   \<and> extract_job_data ''a'' (\<lambda>l. ApiReturns (JObj [(''success'', JBool False)]))
       = (None, [(WARNING, ''Failed to extract data from a'')])
   \<and> extract_job_data ''a'' (\<lambda>l. ApiReturns (JObj [(''success'', JBool True)]))
       = (None, [(WARNING, ''No data extracted from a'')])
   \<and> extract_job_data ''a''
        (\<lambda>l. ApiReturns (JObj [(''success'', JBool True),
                                (''data'', JObj [(''job_title'', JStr ''Engineer'')])]))
       = (None, [(ERROR, ''Failed to extract data from a'')])
   \<and> extract_completion ''a'' ApiRaises 7 [1, 2]
       = (None, [1, 2], [(ERROR, ''Failed to extract data from a'')])"
  using extraction_failures_absent [of "\<lambda>l. ApiRaises" "''a''" 7 "[1, 2]"]
    extraction_failures_absent [of "\<lambda>l. ApiReturns (JObj [(''success'', JBool False)])"
      "''a''" _ _ "JObj [(''success'', JBool False)]" "JBool False"]
    extraction_failures_absent [of "\<lambda>l. ApiReturns (JObj [(''success'', JBool True)])"
      "''a''" _ _ "JObj [(''success'', JBool True)]" "JBool True" JNull]
    extraction_failures_absent [of
      "\<lambda>l. ApiReturns (JObj [(''success'', JBool True),
                                (''data'', JObj [(''job_title'', JStr ''Engineer'')])])"
      "''a''" _ _
      "JObj [(''success'', JBool True), (''data'', JObj [(''job_title'', JStr ''Engineer'')])]"
      "JBool True" "JObj [(''job_title'', JStr ''Engineer'')]" ValidationError]
  by (simp add: validate_job_def field_def)

text \<open>
  Claim C9, as the code has it. The completion of a call appends the current time to the
  window exactly when the API reported success with a non-empty payload, whether or not
  that payload then passes the \<open>JobSchema\<close> validation; in every other case it leaves the
  window as it found it. A task that returns a job has recorded its timestamp. Before its
  call, the rate-limit loop of the task can only drop entries from the front.
\<close>

theorem timestamp_recorded_with_payload:
  "fst (snd (extract_completion link outcome now w)) =
     (if \<exists>result ok payload. outcome = ApiReturns result
            \<and> py_get result ''success'' = Inr ok \<and> truthy ok
            \<and> py_get result ''data'' = Inr payload \<and> truthy payload
      then w @ [now] else w)
   \<and> (fst (extract_completion link outcome now w) \<noteq> None \<longrightarrow>
        fst (snd (extract_completion link outcome now w)) = w @ [now])
   \<and> (\<forall>w'. gate_run R W t w = Pass w' \<longrightarrow> (\<exists>pre. w = pre @ w'))
   \<and> (\<forall>d w'. gate_run R W t w = Sleep d w' \<longrightarrow> (\<exists>pre. w = pre @ w'))"
proof (intro conjI)
  show "fst (snd (extract_completion link outcome now w)) =
     (if \<exists>result ok payload. outcome = ApiReturns result
            \<and> py_get result ''success'' = Inr ok \<and> truthy ok
            \<and> py_get result ''data'' = Inr payload \<and> truthy payload
      then w @ [now] else w)"
    by (cases outcome) (auto simp: extract_completion_def split: sum.splits)
  show "fst (extract_completion link outcome now w) \<noteq> None \<longrightarrow>
        fst (snd (extract_completion link outcome now w)) = w @ [now]"
    by (cases outcome) (auto simp: extract_completion_def split: sum.splits)
  show "\<forall>w'. gate_run R W t w = Pass w' \<longrightarrow> (\<exists>pre. w = pre @ w')"
    using gate_run_Pass by blast
  show "\<forall>d w'. gate_run R W t w = Sleep d w' \<longrightarrow> (\<exists>pre. w = pre @ w')"
    using gate_run_Sleep by blast
qed

theorem timestamp_recorded_with_payload_witness:
  "extract_completion ''a'' (ApiReturns (JObj [(''success'', JBool False)])) 7 [1, 2]
     = (None, [1, 2], [(WARNING, ''Failed to extract data from a'')])
   \<and> fst (snd (extract_completion ''a''
        (ApiReturns (JObj [(''success'', JBool True), (''data'', JObj [(''x'', JNull)])]))
        7 [1, 2])) = [1, 2, 7]
   \<and> gate_run 1 60 100 [1, 2] = Pass []"
  using timestamp_recorded_with_payload [of "''a''"
      "ApiReturns (JObj [(''success'', JBool False)])" 7 "[1, 2]" 1 60 100]
    timestamp_recorded_with_payload [of "''a''"
      "ApiReturns (JObj [(''success'', JBool True), (''data'', JObj [(''x'', JNull)])])"
      7 "[1, 2]" 1 60 100]
  by (simp add: extract_completion_def)

text \<open>
  Claim C9 as it is stated fails: line 124 appends the timestamp before line 126 validates
  the payload. An extraction whose payload lacks required fields fails, and its timestamp
  is in the window.
\<close>

theorem timestamp_on_invalid_payload_counterexample:
  "extract_completion ''a''
     (ApiReturns (JObj [(''success'', JBool True),
                        (''data'', JObj [(''job_title'', JStr ''Engineer'')])])) 7 []
   = (None, [7], [(INFO, ''Successfully processed a''),
                  (ERROR, ''Failed to extract data from a'')])"
  by (simp add: extract_completion_def validate_job_def field_def)

section \<open>Properties of the cached operations\<close>

lemma those_as_str: "those (map (as_str \<circ> JStr) ks) = Some ks"
  by (induction ks) auto

lemma validate_model_dump:
  "validate_job
     [(''job_title'', JStr (job_title j)),
      (''sub_division_of_organization'', JStr (sub_division_of_organization j)),
      (''key_skills'', JArr (map JStr (key_skills j))),
      (''compensation'', JStr (compensation j)),
      (''location'', JStr (location j)),
      (''apply_link'', JStr (apply_link j))] = Some j"
  by (simp add: validate_job_def field_def those_as_str)

lemma JobSchema_init_model_dump: "JobSchema_init (model_dump j) = Inr j"
  by (simp add: model_dump_def validate_model_dump)

lemma nested_job_model_dump: "nested_job (model_dump j) = Some j"
  by (simp add: model_dump_def validate_model_dump)

lemma those_nested_model_dump: "those (map (nested_job \<circ> model_dump) js) = Some js"
  by (induction js) (auto simp: nested_job_model_dump)

lemma JobSchemas_init_dump:
  "JobSchemas_init (JObj [(''jobs'', JArr (map model_dump (jobs r)))]) = Inr r"
  by (simp add: field_def those_nested_model_dump)

lemma init_each_nested: "init_each xs = Inr js \<Longrightarrow> those (map nested_job xs) = Some js"
proof (induction xs arbitrary: js)
  case Nil
  then show ?case by simp
next
  case (Cons x xs)
  from Cons.prems obtain j js' where j: "JobSchema_init x = Inr j"
    and js': "init_each xs = Inr js'" and js: "js = j # js'"
    by (auto split: sum.splits)
  from j have "nested_job x = Some j" by (cases x) (auto split: option.splits)
  with Cons.IH[OF js'] js show ?case by simp
qed

lemma scrape_hit:
  "files wd (scrape_result_path output_dir url) = Some raw \<Longrightarrow> json_loads raw = Some v \<Longrightarrow>
     scrape_jobs_page json_loads json_dumps firecrawl_scrape url output_dir wd = (Inr v, wd)"
  by (simp add: scrape_jobs_page_def)

lemma scrape_miss_usable:
  "files wd (scrape_result_path output_dir url) = None \<Longrightarrow>
   firecrawl_scrape url = ApiReturns r \<Longrightarrow> truthy r \<Longrightarrow> py_in ''json'' r = Inr True \<Longrightarrow>
     scrape_jobs_page json_loads json_dumps firecrawl_scrape url output_dir wd =
       (Inr r, wd\<lparr>scrape_calls := scrape_calls wd + 1,
                  files := (files wd)(scrape_result_path output_dir url \<mapsto> json_dumps r)\<rparr>)"
  by (simp add: scrape_jobs_page_def Let_def)

lemma scrape_miss_raises:
  "files wd (scrape_result_path output_dir url) = None \<Longrightarrow> firecrawl_scrape url = ApiRaises \<Longrightarrow>
     scrape_jobs_page json_loads json_dumps firecrawl_scrape url output_dir wd =
       (Inr JNull, wd\<lparr>scrape_calls := scrape_calls wd + 1\<rparr>)"
  by (simp add: scrape_jobs_page_def Let_def)

lemma recommend_hit_object:
  "files wd (recommendations_path output_dir url) = Some raw \<Longrightarrow>
   json_loads raw = Some (JObj kvs) \<Longrightarrow> JobSchemas_init (JObj kvs) = Inr r \<Longrightarrow>
     get_job_recommendations json_loads json_dumps openai_parse resume url js n output_dir wd
       = (Inr (Some r), wd)"
  by (simp add: get_job_recommendations_def Let_def)

lemma recommend_hit_array:
  "files wd (recommendations_path output_dir url) = Some raw \<Longrightarrow>
   json_loads raw = Some (JArr xs) \<Longrightarrow> init_each xs = Inr cached \<Longrightarrow>
     get_job_recommendations json_loads json_dumps openai_parse resume url js n output_dir wd
       = (Inr (Some \<lparr>jobs = cached\<rparr>), wd)"
  by (simp add: get_job_recommendations_def Let_def)

lemma request_usable:
  "py_strip content \<noteq> [] \<Longrightarrow> json_loads (py_strip content) = Some parsed \<Longrightarrow>
   JobSchemas_init parsed = Inr result \<Longrightarrow>
     request_recommendations json_loads json_dumps (Content (Some content)) p wd =
       (Inr (Some result),
        wd\<lparr>completion_calls := completion_calls wd + 1,
           files := (files wd)(p \<mapsto>
             json_dumps (JObj [(''jobs'', JArr (map model_dump (jobs result)))]))\<rparr>)"
  by (simp add: request_recommendations_def Let_def)

lemma recommend_miss:
  "files wd (recommendations_path output_dir url) = None \<Longrightarrow>
     get_job_recommendations json_loads json_dumps openai_parse resume url js n output_dir wd
       = request_recommendations json_loads json_dumps (openai_parse n resume js)
           (recommendations_path output_dir url) wd"
  by (simp add: get_job_recommendations_def Let_def)

lemma scrape_miss_unusable:
  "files wd (scrape_result_path output_dir url) = None \<Longrightarrow>
   \<not> (\<exists>r. firecrawl_scrape url = ApiReturns r \<and> truthy r \<and> py_in ''json'' r = Inr True) \<Longrightarrow>
     scrape_jobs_page json_loads json_dumps firecrawl_scrape url output_dir wd =
       (Inr JNull, wd\<lparr>scrape_calls := scrape_calls wd + 1\<rparr>)"
  by (cases "firecrawl_scrape url")
     (auto simp: scrape_jobs_page_def Let_def split: sum.splits)

lemma request_unusable:
  "\<not> (\<exists>content parsed result. answer = Content (Some content) \<and> py_strip content \<noteq> []
        \<and> json_loads (py_strip content) = Some parsed \<and> JobSchemas_init parsed = Inr result) \<Longrightarrow>
     request_recommendations json_loads json_dumps answer p wd =
       (Inr None, wd\<lparr>completion_calls := completion_calls wd + 1\<rparr>)"
  by (auto simp: request_recommendations_def Let_def
           split: completion.splits option.splits sum.splits)

text \<open>
  Claim C1, as the code has it, for \<open>scrape_jobs_page\<close> and \<open>get_job_recommendations\<close>.
  Let no file exist under the key. If the operation yields a usable result (a truthy
  scrape result with a \<open>json\<close> entry; a completion whose stripped content is not empty,
  parses and is accepted by \<open>JobSchemas\<close>) and \<open>json.load\<close> reads back what \<open>json.dump\<close>
  wrote, then the first call writes the result under the key, two calls with the key
  invoke the operation once, whatever the API would answer the second time, and both
  return the same result. In every other case (the API raises; the scrape result is
  falsy, has no \<open>json\<close> entry or cannot be searched for one; the completion has no choice
  or no content, or its content is blank, does not parse or is rejected by \<open>JobSchemas\<close>)
  nothing is written, both calls return \<open>None\<close> and the operation is invoked by each of
  them.
\<close>

theorem cache_round_trip:
  "(files wd (scrape_result_path output_dir url) = None
      \<and> firecrawl_scrape url = ApiReturns r \<and> truthy r \<and> py_in ''json'' r = Inr True
      \<and> json_loads (json_dumps r) = Some r
      \<and> scrape_jobs_page json_loads json_dumps firecrawl_scrape url output_dir wd = (r1, wd1)
      \<and> scrape_jobs_page json_loads json_dumps firecrawl_scrape2 url output_dir wd1 = (r2, wd2)
    \<longrightarrow> r1 = Inr r \<and> r2 = Inr r \<and> scrape_calls wd2 = scrape_calls wd + 1
        \<and> files wd1 (scrape_result_path output_dir url) = Some (json_dumps r)) \<and>
   (files wd (scrape_result_path output_dir url) = None
      \<and> \<not> (\<exists>r. firecrawl_scrape url = ApiReturns r \<and> truthy r \<and> py_in ''json'' r = Inr True)
      \<and> scrape_jobs_page json_loads json_dumps firecrawl_scrape url output_dir wd = (r1, wd1)
      \<and> scrape_jobs_page json_loads json_dumps firecrawl_scrape url output_dir wd1 = (r2, wd2)
    \<longrightarrow> r1 = Inr JNull \<and> r2 = Inr JNull \<and> files wd1 = files wd \<and> files wd2 = files wd
        \<and> scrape_calls wd2 = scrape_calls wd + 2) \<and>
   (files wd (recommendations_path output_dir url) = None
      \<and> openai_parse n resume js = Content (Some content) \<and> py_strip content \<noteq> []
      \<and> json_loads (py_strip content) = Some parsed \<and> JobSchemas_init parsed = Inr result
      \<and> json_loads (json_dumps (JObj [(''jobs'', JArr (map model_dump (jobs result)))]))
          = Some (JObj [(''jobs'', JArr (map model_dump (jobs result)))])
      \<and> get_job_recommendations json_loads json_dumps openai_parse resume url js n
            output_dir wd = (q1, wd1)
      \<and> get_job_recommendations json_loads json_dumps openai_parse2 resume2 url js2 n2
            output_dir wd1 = (q2, wd2)
    \<longrightarrow> q1 = Inr (Some result) \<and> q2 = Inr (Some result)
        \<and> completion_calls wd2 = completion_calls wd + 1
        \<and> files wd1 (recommendations_path output_dir url)
            = Some (json_dumps (JObj [(''jobs'', JArr (map model_dump (jobs result)))]))) \<and>
   (files wd (recommendations_path output_dir url) = None
      \<and> \<not> (\<exists>content parsed result. openai_parse n resume js = Content (Some content)
              \<and> py_strip content \<noteq> [] \<and> json_loads (py_strip content) = Some parsed
              \<and> JobSchemas_init parsed = Inr result)
      \<and> get_job_recommendations json_loads json_dumps openai_parse resume url js n
            output_dir wd = (q1, wd1)
      \<and> get_job_recommendations json_loads json_dumps openai_parse resume url js n
            output_dir wd1 = (q2, wd2)
    \<longrightarrow> q1 = Inr None \<and> q2 = Inr None \<and> files wd1 = files wd \<and> files wd2 = files wd
        \<and> completion_calls wd2 = completion_calls wd + 2)"
proof (intro conjI impI)
  assume a: "files wd (scrape_result_path output_dir url) = None
      \<and> firecrawl_scrape url = ApiReturns r \<and> truthy r \<and> py_in ''json'' r = Inr True
      \<and> json_loads (json_dumps r) = Some r
      \<and> scrape_jobs_page json_loads json_dumps firecrawl_scrape url output_dir wd = (r1, wd1)
      \<and> scrape_jobs_page json_loads json_dumps firecrawl_scrape2 url output_dir wd1 = (r2, wd2)"
  then have first: "r1 = Inr r"
    "wd1 = wd\<lparr>scrape_calls := scrape_calls wd + 1,
              files := (files wd)(scrape_result_path output_dir url \<mapsto> json_dumps r)\<rparr>"
    using scrape_miss_usable[of wd output_dir url firecrawl_scrape r json_loads json_dumps]
    by auto
  then show f: "files wd1 (scrape_result_path output_dir url) = Some (json_dumps r)" by simp
  from scrape_hit[OF f, of json_loads r json_dumps firecrawl_scrape2] a
  have "r2 = Inr r" "wd2 = wd1" by auto
  with first show "r1 = Inr r" "r2 = Inr r" "scrape_calls wd2 = scrape_calls wd + 1" by auto
next
  assume a: "files wd (scrape_result_path output_dir url) = None
      \<and> \<not> (\<exists>r. firecrawl_scrape url = ApiReturns r \<and> truthy r \<and> py_in ''json'' r = Inr True)
      \<and> scrape_jobs_page json_loads json_dumps firecrawl_scrape url output_dir wd = (r1, wd1)
      \<and> scrape_jobs_page json_loads json_dumps firecrawl_scrape url output_dir wd1 = (r2, wd2)"
  then have first: "r1 = Inr JNull" "wd1 = wd\<lparr>scrape_calls := scrape_calls wd + 1\<rparr>"
    using scrape_miss_unusable[of wd output_dir url firecrawl_scrape json_loads json_dumps]
    by auto
  then have "files wd1 (scrape_result_path output_dir url) = None" using a by simp
  from scrape_miss_unusable[OF this, of firecrawl_scrape json_loads json_dumps] a
  have "r2 = Inr JNull" "wd2 = wd1\<lparr>scrape_calls := scrape_calls wd1 + 1\<rparr>" by auto
  with first show "r1 = Inr JNull" "r2 = Inr JNull" "files wd1 = files wd" "files wd2 = files wd"
    "scrape_calls wd2 = scrape_calls wd + 2" by auto
next
  let ?p = "recommendations_path output_dir url"
  let ?doc = "JObj [(''jobs'', JArr (map model_dump (jobs result)))]"
  assume a: "files wd ?p = None
      \<and> openai_parse n resume js = Content (Some content) \<and> py_strip content \<noteq> []
      \<and> json_loads (py_strip content) = Some parsed \<and> JobSchemas_init parsed = Inr result
      \<and> json_loads (json_dumps ?doc) = Some ?doc
      \<and> get_job_recommendations json_loads json_dumps openai_parse resume url js n
            output_dir wd = (q1, wd1)
      \<and> get_job_recommendations json_loads json_dumps openai_parse2 resume2 url js2 n2
            output_dir wd1 = (q2, wd2)"
  then have first: "q1 = Inr (Some result)"
    "wd1 = wd\<lparr>completion_calls := completion_calls wd + 1,
              files := (files wd)(?p \<mapsto> json_dumps ?doc)\<rparr>"
    using recommend_miss[of wd output_dir url json_loads json_dumps openai_parse resume js n]
      request_usable[of content json_loads parsed result json_dumps ?p wd]
    by auto
  then show f: "files wd1 ?p = Some (json_dumps ?doc)" by simp
  from recommend_hit_object[OF f, of json_loads _ result json_dumps openai_parse2 resume2 js2 n2]
    a JobSchemas_init_dump[of result]
  have "q2 = Inr (Some result)" "wd2 = wd1" by auto
  with first show "q1 = Inr (Some result)" "q2 = Inr (Some result)"
    "completion_calls wd2 = completion_calls wd + 1" by auto
next
  let ?p = "recommendations_path output_dir url"
  assume a: "files wd ?p = None
      \<and> \<not> (\<exists>content parsed result. openai_parse n resume js = Content (Some content)
              \<and> py_strip content \<noteq> [] \<and> json_loads (py_strip content) = Some parsed
              \<and> JobSchemas_init parsed = Inr result)
      \<and> get_job_recommendations json_loads json_dumps openai_parse resume url js n
            output_dir wd = (q1, wd1)
      \<and> get_job_recommendations json_loads json_dumps openai_parse resume url js n
            output_dir wd1 = (q2, wd2)"
  have req: "\<And>w. request_recommendations json_loads json_dumps (openai_parse n resume js) ?p w
      = (Inr None, w\<lparr>completion_calls := completion_calls w + 1\<rparr>)"
    using a by (intro request_unusable) blast
  from a have first: "q1 = Inr None" "wd1 = wd\<lparr>completion_calls := completion_calls wd + 1\<rparr>"
    using recommend_miss[of wd output_dir url json_loads json_dumps openai_parse resume js n] req
    by auto
  then have "files wd1 ?p = None" using a by simp
  from recommend_miss[OF this, of json_loads json_dumps openai_parse resume js n] req a
  have "q2 = Inr None" "wd2 = wd1\<lparr>completion_calls := completion_calls wd1 + 1\<rparr>" by auto
  with first show "q1 = Inr None" "q2 = Inr None" "files wd1 = files wd" "files wd2 = files wd"
    "completion_calls wd2 = completion_calls wd + 2" by auto
qed


theorem cache_round_trip_witness:
  "scrape_jobs_page (\<lambda>s. if s = ''J'' then Some (JObj [(''json'', JArr [JStr ''l1''])]) else None)
         (\<lambda>v. ''J'') (\<lambda>u. ApiReturns (JObj [(''json'', JArr [JStr ''l1''])])) ''a/b'' ''results''
         \<lparr>files = Map.empty, scrape_calls = 0, batch_runs = 0, completion_calls = 0\<rparr>
     = (Inr (JObj [(''json'', JArr [JStr ''l1''])]),
        \<lparr>files = [''results/scrape_result-a_b.json'' \<mapsto> ''J''], scrape_calls = 1,
          batch_runs = 0, completion_calls = 0\<rparr>)
   \<and> scrape_jobs_page (\<lambda>s. if s = ''J'' then Some (JObj [(''json'', JArr [JStr ''l1''])]) else None)
         (\<lambda>v. ''J'') (\<lambda>u. ApiRaises) ''a/b'' ''results''
         \<lparr>files = [''results/scrape_result-a_b.json'' \<mapsto> ''J''], scrape_calls = 1,
          batch_runs = 0, completion_calls = 0\<rparr>
     = (Inr (JObj [(''json'', JArr [JStr ''l1''])]),
        \<lparr>files = [''results/scrape_result-a_b.json'' \<mapsto> ''J''], scrape_calls = 1,
          batch_runs = 0, completion_calls = 0\<rparr>)
   \<and> scrape_jobs_page (\<lambda>s. None) (\<lambda>v. ''J'')
         (\<lambda>u. ApiReturns (JObj [(''metadata'', JNull)])) ''a/b'' ''results''
         \<lparr>files = Map.empty, scrape_calls = 0, batch_runs = 0, completion_calls = 0\<rparr>
     = (Inr JNull,
        \<lparr>files = Map.empty, scrape_calls = 1, batch_runs = 0, completion_calls = 0\<rparr>)
   \<and> scrape_jobs_page (\<lambda>s. None) (\<lambda>v. ''J'')
         (\<lambda>u. ApiReturns (JObj [(''metadata'', JNull)])) ''a/b'' ''results''
         \<lparr>files = Map.empty, scrape_calls = 1, batch_runs = 0, completion_calls = 0\<rparr>
     = (Inr JNull,
        \<lparr>files = Map.empty, scrape_calls = 2, batch_runs = 0, completion_calls = 0\<rparr>)
   \<and> get_job_recommendations
      (\<lambda>s. if s = ''ok'' then Some (JObj [(''jobs'', JArr [])]) else None) (\<lambda>v. ''ok'')
      (\<lambda>n r js. Content (Some (CHR 0xA0 # '' ok ''))) ''cv'' ''a/b'' [] 5 ''results''
      \<lparr>files = Map.empty, scrape_calls = 0, batch_runs = 0, completion_calls = 0\<rparr>
     = (Inr (Some \<lparr>jobs = []\<rparr>),
        \<lparr>files = [''results/recommendations-a_b.json'' \<mapsto> ''ok''], scrape_calls = 0,
          batch_runs = 0, completion_calls = 1\<rparr>)
   \<and> get_job_recommendations
      (\<lambda>s. if s = ''ok'' then Some (JObj [(''jobs'', JArr [])]) else None) (\<lambda>v. ''ok'')
      (\<lambda>n r js. CompletionRaises) ''cv'' ''a/b'' [] 5 ''results''
      \<lparr>files = [''results/recommendations-a_b.json'' \<mapsto> ''ok''], scrape_calls = 0,
          batch_runs = 0, completion_calls = 1\<rparr>
     = (Inr (Some \<lparr>jobs = []\<rparr>),
        \<lparr>files = [''results/recommendations-a_b.json'' \<mapsto> ''ok''], scrape_calls = 0,
          batch_runs = 0, completion_calls = 1\<rparr>)
   \<and> get_job_recommendations
      (\<lambda>s. if s = ''ok'' then Some (JObj [(''jobs'', JArr [])]) else None) (\<lambda>v. ''ok'')
      (\<lambda>n r js. Content (Some ''no'')) ''cv'' ''a/b'' [] 5 ''results''
      \<lparr>files = Map.empty, scrape_calls = 0, batch_runs = 0, completion_calls = 0\<rparr>
     = (Inr None,
        \<lparr>files = Map.empty, scrape_calls = 0, batch_runs = 0, completion_calls = 1\<rparr>)
   \<and> get_job_recommendations
      (\<lambda>s. if s = ''ok'' then Some (JObj [(''jobs'', JArr [])]) else None) (\<lambda>v. ''ok'')
      (\<lambda>n r js. Content (Some ''no'')) ''cv'' ''a/b'' [] 5 ''results''
      \<lparr>files = Map.empty, scrape_calls = 0, batch_runs = 0, completion_calls = 1\<rparr>
     = (Inr None,
        \<lparr>files = Map.empty, scrape_calls = 0, batch_runs = 0, completion_calls = 2\<rparr>)"
proof -
  have a: "scrape_jobs_page (\<lambda>s. if s = ''J'' then Some (JObj [(''json'', JArr [JStr ''l1''])]) else None)
         (\<lambda>v. ''J'') (\<lambda>u. ApiReturns (JObj [(''json'', JArr [JStr ''l1''])])) ''a/b'' ''results''
         \<lparr>files = Map.empty, scrape_calls = 0, batch_runs = 0, completion_calls = 0\<rparr>
     = (Inr (JObj [(''json'', JArr [JStr ''l1''])]),
        \<lparr>files = [''results/scrape_result-a_b.json'' \<mapsto> ''J''], scrape_calls = 1,
          batch_runs = 0, completion_calls = 0\<rparr>)
   \<and> scrape_jobs_page (\<lambda>s. if s = ''J'' then Some (JObj [(''json'', JArr [JStr ''l1''])]) else None)
         (\<lambda>v. ''J'') (\<lambda>u. ApiRaises) ''a/b'' ''results''
         \<lparr>files = [''results/scrape_result-a_b.json'' \<mapsto> ''J''], scrape_calls = 1,
          batch_runs = 0, completion_calls = 0\<rparr>
     = (Inr (JObj [(''json'', JArr [JStr ''l1''])]),
        \<lparr>files = [''results/scrape_result-a_b.json'' \<mapsto> ''J''], scrape_calls = 1,
          batch_runs = 0, completion_calls = 0\<rparr>)"
    using cache_round_trip [where wd = "\<lparr>files = Map.empty, scrape_calls = 0, batch_runs = 0,
        completion_calls = 0\<rparr>"
      and output_dir = "''results''" and url = "''a/b''"
      and firecrawl_scrape = "\<lambda>u. ApiReturns (JObj [(''json'', JArr [JStr ''l1''])])"
      and ?firecrawl_scrape2.0 = "\<lambda>u. ApiRaises"
      and r = "JObj [(''json'', JArr [JStr ''l1''])]"
      and json_loads = "\<lambda>s. if s = ''J'' then Some (JObj [(''json'', JArr [JStr ''l1''])]) else None"
      and json_dumps = "\<lambda>v. ''J''"
      and ?r1.0 = "Inr (JObj [(''json'', JArr [JStr ''l1''])])"
      and ?wd1.0 = "\<lparr>files = [''results/scrape_result-a_b.json'' \<mapsto> ''J''], scrape_calls = 1,
          batch_runs = 0, completion_calls = 0\<rparr>"
      and ?r2.0 = "Inr (JObj [(''json'', JArr [JStr ''l1''])])"
      and ?wd2.0 = "\<lparr>files = [''results/scrape_result-a_b.json'' \<mapsto> ''J''], scrape_calls = 1,
          batch_runs = 0, completion_calls = 0\<rparr>"]
    by (simp add: scrape_jobs_page_def scrape_result_path_def safe_url_def Let_def
          get_job_recommendations_def request_recommendations_def recommendations_path_def
          py_strip_def is_space_def field_def)
  have b: "scrape_jobs_page (\<lambda>s. None) (\<lambda>v. ''J'')
         (\<lambda>u. ApiReturns (JObj [(''metadata'', JNull)])) ''a/b'' ''results''
         \<lparr>files = Map.empty, scrape_calls = 0, batch_runs = 0, completion_calls = 0\<rparr>
     = (Inr JNull,
        \<lparr>files = Map.empty, scrape_calls = 1, batch_runs = 0, completion_calls = 0\<rparr>)
   \<and> scrape_jobs_page (\<lambda>s. None) (\<lambda>v. ''J'')
         (\<lambda>u. ApiReturns (JObj [(''metadata'', JNull)])) ''a/b'' ''results''
         \<lparr>files = Map.empty, scrape_calls = 1, batch_runs = 0, completion_calls = 0\<rparr>
     = (Inr JNull,
        \<lparr>files = Map.empty, scrape_calls = 2, batch_runs = 0, completion_calls = 0\<rparr>)"
    using cache_round_trip [where wd = "\<lparr>files = Map.empty, scrape_calls = 0, batch_runs = 0,
        completion_calls = 0\<rparr>"
      and output_dir = "''results''" and url = "''a/b''"
      and firecrawl_scrape = "\<lambda>u. ApiReturns (JObj [(''metadata'', JNull)])"
      and json_loads = "\<lambda>s. None" and json_dumps = "\<lambda>v. ''J''"
      and ?r1.0 = "Inr JNull" and ?r2.0 = "Inr JNull"
      and ?wd1.0 = "\<lparr>files = Map.empty, scrape_calls = 1, batch_runs = 0,
          completion_calls = 0\<rparr>"
      and ?wd2.0 = "\<lparr>files = Map.empty, scrape_calls = 2, batch_runs = 0,
          completion_calls = 0\<rparr>"]
    by (simp add: scrape_jobs_page_def scrape_result_path_def safe_url_def Let_def
          get_job_recommendations_def request_recommendations_def recommendations_path_def
          py_strip_def is_space_def field_def)
  have c: "get_job_recommendations
      (\<lambda>s. if s = ''ok'' then Some (JObj [(''jobs'', JArr [])]) else None) (\<lambda>v. ''ok'')
      (\<lambda>n r js. Content (Some (CHR 0xA0 # '' ok ''))) ''cv'' ''a/b'' [] 5 ''results''
      \<lparr>files = Map.empty, scrape_calls = 0, batch_runs = 0, completion_calls = 0\<rparr>
     = (Inr (Some \<lparr>jobs = []\<rparr>),
        \<lparr>files = [''results/recommendations-a_b.json'' \<mapsto> ''ok''], scrape_calls = 0,
          batch_runs = 0, completion_calls = 1\<rparr>)
   \<and> get_job_recommendations
      (\<lambda>s. if s = ''ok'' then Some (JObj [(''jobs'', JArr [])]) else None) (\<lambda>v. ''ok'')
      (\<lambda>n r js. CompletionRaises) ''cv'' ''a/b'' [] 5 ''results''
      \<lparr>files = [''results/recommendations-a_b.json'' \<mapsto> ''ok''], scrape_calls = 0,
          batch_runs = 0, completion_calls = 1\<rparr>
     = (Inr (Some \<lparr>jobs = []\<rparr>),
        \<lparr>files = [''results/recommendations-a_b.json'' \<mapsto> ''ok''], scrape_calls = 0,
          batch_runs = 0, completion_calls = 1\<rparr>)"
    using cache_round_trip [where wd = "\<lparr>files = Map.empty, scrape_calls = 0, batch_runs = 0,
        completion_calls = 0\<rparr>"
      and output_dir = "''results''" and url = "''a/b''"
      and json_loads = "\<lambda>s. if s = ''ok'' then Some (JObj [(''jobs'', JArr [])]) else None"
      and json_dumps = "\<lambda>v. ''ok''"
      and openai_parse = "\<lambda>n r js. Content (Some (CHR 0xA0 # '' ok ''))"
      and ?openai_parse2.0 = "\<lambda>n r js. CompletionRaises"
      and n = "5" and ?n2.0 = "5" and resume = "''cv''" and ?resume2.0 = "''cv''"
      and js = "[]" and ?js2.0 = "[]" and content = "CHR 0xA0 # '' ok ''"
      and parsed = "JObj [(''jobs'', JArr [])]" and result = "\<lparr>jobs = []\<rparr>"
      and ?q1.0 = "Inr (Some \<lparr>jobs = []\<rparr>)" and ?q2.0 = "Inr (Some \<lparr>jobs = []\<rparr>)"
      and ?wd1.0 = "\<lparr>files = [''results/recommendations-a_b.json'' \<mapsto> ''ok''], scrape_calls = 0,
          batch_runs = 0, completion_calls = 1\<rparr>"
      and ?wd2.0 = "\<lparr>files = [''results/recommendations-a_b.json'' \<mapsto> ''ok''], scrape_calls = 0,
          batch_runs = 0, completion_calls = 1\<rparr>"]
    by (simp add: scrape_jobs_page_def scrape_result_path_def safe_url_def Let_def
          get_job_recommendations_def request_recommendations_def recommendations_path_def
          py_strip_def is_space_def field_def)
  have d: "get_job_recommendations
      (\<lambda>s. if s = ''ok'' then Some (JObj [(''jobs'', JArr [])]) else None) (\<lambda>v. ''ok'')
      (\<lambda>n r js. Content (Some ''no'')) ''cv'' ''a/b'' [] 5 ''results''
      \<lparr>files = Map.empty, scrape_calls = 0, batch_runs = 0, completion_calls = 0\<rparr>
     = (Inr None,
        \<lparr>files = Map.empty, scrape_calls = 0, batch_runs = 0, completion_calls = 1\<rparr>)
   \<and> get_job_recommendations
      (\<lambda>s. if s = ''ok'' then Some (JObj [(''jobs'', JArr [])]) else None) (\<lambda>v. ''ok'')
      (\<lambda>n r js. Content (Some ''no'')) ''cv'' ''a/b'' [] 5 ''results''
      \<lparr>files = Map.empty, scrape_calls = 0, batch_runs = 0, completion_calls = 1\<rparr>
     = (Inr None,
        \<lparr>files = Map.empty, scrape_calls = 0, batch_runs = 0, completion_calls = 2\<rparr>)"
    using cache_round_trip [where wd = "\<lparr>files = Map.empty, scrape_calls = 0, batch_runs = 0,
        completion_calls = 0\<rparr>"
      and output_dir = "''results''" and url = "''a/b''"
      and json_loads = "\<lambda>s. if s = ''ok'' then Some (JObj [(''jobs'', JArr [])]) else None"
      and json_dumps = "\<lambda>v. ''ok''"
      and openai_parse = "\<lambda>n r js. Content (Some ''no'')"
      and n = "5" and resume = "''cv''" and js = "[]"
      and ?q1.0 = "Inr None" and ?q2.0 = "Inr None"
      and ?wd1.0 = "\<lparr>files = Map.empty, scrape_calls = 0, batch_runs = 0,
          completion_calls = 1\<rparr>"
      and ?wd2.0 = "\<lparr>files = Map.empty, scrape_calls = 0, batch_runs = 0,
          completion_calls = 2\<rparr>"]
    by (simp add: scrape_jobs_page_def scrape_result_path_def safe_url_def Let_def
          get_job_recommendations_def request_recommendations_def recommendations_path_def
          py_strip_def is_space_def field_def)
  from a b c d show ?thesis by blast
qed

text \<open>
  Claim C1 as it is stated fails. A scrape that raises is caught and not cached, so two
  calls with the same key invoke the scraping API twice. \<open>process_job_links\<close> reads its
  cache file and never writes it, so two calls with the same key run the extraction batch
  twice, even when the first run returned jobs.
\<close>

theorem cache_recompute_counterexample:
  "scrape_calls (snd (scrape_jobs_page (\<lambda>s. None) (\<lambda>v. ''J'') (\<lambda>u. ApiRaises) ''a/b'' ''results''
      (snd (scrape_jobs_page (\<lambda>s. None) (\<lambda>v. ''J'') (\<lambda>u. ApiRaises) ''a/b'' ''results''
         \<lparr>files = Map.empty, scrape_calls = 0, batch_runs = 0, completion_calls = 0\<rparr>)))) = 2
   \<and> batch_runs (snd (process_job_links (\<lambda>s. None) (Inr [\<lparr>job_title = ''Engineer'', sub_division_of_organization = ''R'',
          key_skills = [''ml''], compensation = ''9'', location = ''Oslo'',
          apply_link = ''l1''\<rparr>]) ''a/b'' ''results''
      (snd (process_job_links (\<lambda>s. None) (Inr [\<lparr>job_title = ''Engineer'', sub_division_of_organization = ''R'',
          key_skills = [''ml''], compensation = ''9'', location = ''Oslo'',
          apply_link = ''l1''\<rparr>]) ''a/b'' ''results''
         \<lparr>files = Map.empty, scrape_calls = 0, batch_runs = 0, completion_calls = 0\<rparr>)))) = 2"
  by (simp add: scrape_jobs_page_def process_job_links_def Let_def)

text \<open>
  Claim C2 at a cache file whose content, \<open>{\<close>, does not parse. \<open>scrape_jobs_page\<close> and
  \<open>process_job_links\<close> call \<open>json.load\<close> outside any \<open>try\<close>: the JSONDecodeError reaches the
  caller and the operation is not invoked. \<open>get_job_recommendations\<close> catches it, invokes
  the completion API and writes a valid file.
\<close>

theorem corrupt_cache_raises:
  "scrape_jobs_page (\<lambda>s. if s = ''ok'' then Some (JObj [(''jobs'', JArr [])]) else None)
      (\<lambda>v. ''ok'') (\<lambda>u. ApiReturns (JObj [(''json'', JArr [])])) ''a/b'' ''results''
      \<lparr>files = [''results/scrape_result-a_b.json'' \<mapsto> ''{''], scrape_calls = 0,
        batch_runs = 0, completion_calls = 0\<rparr>
     = (Inl JSONDecodeError,
        \<lparr>files = [''results/scrape_result-a_b.json'' \<mapsto> ''{''], scrape_calls = 0,
          batch_runs = 0, completion_calls = 0\<rparr>)
   \<and> process_job_links (\<lambda>s. if s = ''ok'' then Some (JObj [(''jobs'', JArr [])]) else None)
      (Inr []) ''a/b'' ''results''
      \<lparr>files = [''results/processed_jobs-a_b.json'' \<mapsto> ''{''], scrape_calls = 0,
        batch_runs = 0, completion_calls = 0\<rparr>
     = (Inl JSONDecodeError,
        \<lparr>files = [''results/processed_jobs-a_b.json'' \<mapsto> ''{''], scrape_calls = 0,
          batch_runs = 0, completion_calls = 0\<rparr>)
   \<and> get_job_recommendations
      (\<lambda>s. if s = ''ok'' then Some (JObj [(''jobs'', JArr [])]) else None) (\<lambda>v. ''ok'')
      (\<lambda>n r js. Content (Some ''ok'')) ''cv'' ''a/b'' [] 5 ''results''
      \<lparr>files = [''results/recommendations-a_b.json'' \<mapsto> ''{''], scrape_calls = 0,
        batch_runs = 0, completion_calls = 0\<rparr>
     = (Inr (Some \<lparr>jobs = []\<rparr>),
        \<lparr>files = [''results/recommendations-a_b.json'' \<mapsto> ''ok''], scrape_calls = 0,
          batch_runs = 0, completion_calls = 1\<rparr>)"
  by (simp add: scrape_jobs_page_def process_job_links_def get_job_recommendations_def
        request_recommendations_def scrape_result_path_def processed_jobs_path_def
        recommendations_path_def safe_url_def Let_def py_strip_def is_space_def field_def)

text \<open>
  Claim C10. A recommendation cache file whose content parses to a list of job objects, and
  one whose content parses to an object with that list under \<open>jobs\<close>, are both a cache hit:
  when every element of the list is a valid \<open>JobSchema\<close>, \<open>get_job_recommendations\<close> returns
  the \<open>JobSchemas\<close> of those jobs in either case and leaves the world, the counter of
  completion calls included, as it was.
\<close>

theorem recommendation_cache_formats:
  "files wd (recommendations_path output_dir url) = Some raw \<and> init_each xs = Inr cached \<longrightarrow>
     (json_loads raw = Some (JArr xs) \<longrightarrow>
        get_job_recommendations json_loads json_dumps openai_parse resume url js n output_dir wd
          = (Inr (Some \<lparr>jobs = cached\<rparr>), wd)) \<and>
     (json_loads raw = Some (JObj kvs) \<and> map_of kvs ''jobs'' = Some (JArr xs) \<longrightarrow>
        get_job_recommendations json_loads json_dumps openai_parse resume url js n output_dir wd
          = (Inr (Some \<lparr>jobs = cached\<rparr>), wd))"
proof (intro impI conjI)
  assume a: "files wd (recommendations_path output_dir url) = Some raw \<and> init_each xs = Inr cached"
    and l: "json_loads raw = Some (JArr xs)"
  from recommend_hit_array[of wd output_dir url raw json_loads xs cached] a l
  show "get_job_recommendations json_loads json_dumps openai_parse resume url js n output_dir wd
          = (Inr (Some \<lparr>jobs = cached\<rparr>), wd)" by simp
next
  assume a: "files wd (recommendations_path output_dir url) = Some raw \<and> init_each xs = Inr cached"
    and l: "json_loads raw = Some (JObj kvs) \<and> map_of kvs ''jobs'' = Some (JArr xs)"
  from a init_each_nested have "those (map nested_job xs) = Some cached" by blast
  with l have "JobSchemas_init (JObj kvs) = Inr \<lparr>jobs = cached\<rparr>" by (simp add: field_def)
  with a l
  show "get_job_recommendations json_loads json_dumps openai_parse resume url js n output_dir wd
          = (Inr (Some \<lparr>jobs = cached\<rparr>), wd)"
    by (intro recommend_hit_object[where raw = raw and kvs = kvs]) auto
qed

theorem recommendation_cache_formats_witness:
  "fst (get_job_recommendations
      (\<lambda>s. if s = ''A'' then Some (JArr [JObj [(''job_title'', JStr ''Engineer''),
          (''sub_division_of_organization'', JStr ''R''), (''key_skills'', JArr [JStr ''ml'']),
          (''compensation'', JStr ''9''), (''location'', JStr ''Oslo''),
          (''apply_link'', JStr ''l1'')]]) else None)
      (\<lambda>v. ''A'') (\<lambda>n r js. CompletionRaises) ''cv'' ''a/b'' [] 5 ''results''
      \<lparr>files = [''results/recommendations-a_b.json'' \<mapsto> ''A''], scrape_calls = 0,
        batch_runs = 0, completion_calls = 0\<rparr>)
     = Inr (Some \<lparr>jobs = [\<lparr>job_title = ''Engineer'', sub_division_of_organization = ''R'',
          key_skills = [''ml''], compensation = ''9'', location = ''Oslo'',
          apply_link = ''l1''\<rparr>]\<rparr>)
   \<and> fst (get_job_recommendations
      (\<lambda>s. if s = ''B'' then Some (JObj [(''jobs'', JArr [JObj [(''job_title'', JStr ''Engineer''),
          (''sub_division_of_organization'', JStr ''R''), (''key_skills'', JArr [JStr ''ml'']),
          (''compensation'', JStr ''9''), (''location'', JStr ''Oslo''),
          (''apply_link'', JStr ''l1'')]])]) else None)
      (\<lambda>v. ''B'') (\<lambda>n r js. CompletionRaises) ''cv'' ''a/b'' [] 5 ''results''
      \<lparr>files = [''results/recommendations-a_b.json'' \<mapsto> ''B''], scrape_calls = 0,
        batch_runs = 0, completion_calls = 0\<rparr>)
     = Inr (Some \<lparr>jobs = [\<lparr>job_title = ''Engineer'', sub_division_of_organization = ''R'',
          key_skills = [''ml''], compensation = ''9'', location = ''Oslo'',
          apply_link = ''l1''\<rparr>]\<rparr>)"
  using recommendation_cache_formats [where
      wd = "\<lparr>files = [''results/recommendations-a_b.json'' \<mapsto> ''A''], scrape_calls = 0,
        batch_runs = 0, completion_calls = 0\<rparr>"
      and output_dir = "''results''" and url = "''a/b''" and raw = "''A''"
      and xs = "[JObj [(''job_title'', JStr ''Engineer''),
          (''sub_division_of_organization'', JStr ''R''), (''key_skills'', JArr [JStr ''ml'']),
          (''compensation'', JStr ''9''), (''location'', JStr ''Oslo''),
          (''apply_link'', JStr ''l1'')]]"
      and cached = "[\<lparr>job_title = ''Engineer'', sub_division_of_organization = ''R'',
          key_skills = [''ml''], compensation = ''9'', location = ''Oslo'',
          apply_link = ''l1''\<rparr>]"
      and json_loads = "\<lambda>s. if s = ''A'' then Some (JArr [JObj [(''job_title'', JStr ''Engineer''),
          (''sub_division_of_organization'', JStr ''R''), (''key_skills'', JArr [JStr ''ml'']),
          (''compensation'', JStr ''9''), (''location'', JStr ''Oslo''),
          (''apply_link'', JStr ''l1'')]]) else None"
      and json_dumps = "\<lambda>v. ''A''" and openai_parse = "\<lambda>n r js. CompletionRaises"
      and resume = "''cv''" and js = "[]" and n = "5"]
    recommendation_cache_formats [where
      wd = "\<lparr>files = [''results/recommendations-a_b.json'' \<mapsto> ''B''], scrape_calls = 0,
        batch_runs = 0, completion_calls = 0\<rparr>"
      and output_dir = "''results''" and url = "''a/b''" and raw = "''B''"
      and xs = "[JObj [(''job_title'', JStr ''Engineer''),
          (''sub_division_of_organization'', JStr ''R''), (''key_skills'', JArr [JStr ''ml'']),
          (''compensation'', JStr ''9''), (''location'', JStr ''Oslo''),
          (''apply_link'', JStr ''l1'')]]"
      and cached = "[\<lparr>job_title = ''Engineer'', sub_division_of_organization = ''R'',
          key_skills = [''ml''], compensation = ''9'', location = ''Oslo'',
          apply_link = ''l1''\<rparr>]"
      and kvs = "[(''jobs'', JArr [JObj [(''job_title'', JStr ''Engineer''),
          (''sub_division_of_organization'', JStr ''R''), (''key_skills'', JArr [JStr ''ml'']),
          (''compensation'', JStr ''9''), (''location'', JStr ''Oslo''),
          (''apply_link'', JStr ''l1'')]])]"
      and json_loads = "\<lambda>s. if s = ''B'' then Some (JObj [(''jobs'', JArr [JObj [(''job_title'', JStr ''Engineer''),
          (''sub_division_of_organization'', JStr ''R''), (''key_skills'', JArr [JStr ''ml'']),
          (''compensation'', JStr ''9''), (''location'', JStr ''Oslo''),
          (''apply_link'', JStr ''l1'')]])]) else None"
      and json_dumps = "\<lambda>v. ''B''" and openai_parse = "\<lambda>n r js. CompletionRaises"
      and resume = "''cv''" and js = "[]" and n = "5"]
  by (simp add: recommendations_path_def safe_url_def validate_job_def field_def)

section \<open>Properties of the concurrent scheduler\<close>

lemma filter_update_length:
  "i < length xs \<Longrightarrow>
     length (filter P (xs[i := y])) + (if P (xs ! i) then 1 else 0)
       = length (filter P xs) + (if P y then 1 else 0)"
proof (induction xs arbitrary: i)
  case Nil
  then show ?case by simp
next
  case (Cons x xs)
  show ?case
  proof (cases i)
    case 0
    then show ?thesis by simp
  next
    case (Suc j)
    with Cons.prems have "j < length xs" by simp
    from Cons.IH[OF this] Suc show ?thesis by simp
  qed
qed

lemma concat_update_mset:
  "i < length xs \<Longrightarrow>
     mset (concat (map f (xs[i := y]))) + mset (f (xs ! i))
       = mset (concat (map f xs)) + mset (f y)"
proof (induction xs arbitrary: i)
  case Nil
  then show ?case by simp
next
  case (Cons x xs)
  show ?case
  proof (cases i)
    case 0
    then show ?thesis by simp
  next
    case (Suc j)
    with Cons.prems have "j < length xs" by simp
    from Cons.IH[OF this] Suc show ?thesis by (simp add: ac_simps)
  qed
qed

lemma map_fst_update:
  "i < length xs \<Longrightarrow> xs ! i = (l, st) \<Longrightarrow> map fst (xs[i := (l, st')]) = map fst xs"
proof -
  assume a: "i < length xs" "xs ! i = (l, st)"
  have "map fst (xs[i := (l, st')]) = (map fst xs)[i := l]" by (simp add: map_update)
  also have "\<dots> = map fst xs" using a by (metis fst_conv list_update_id nth_map)
  finally show ?thesis .
qed

lemma extract_completion_result:
  "fst (extract_completion link (firecrawl_extract link) now w)
     = fst (extract_job_data link firecrawl_extract)"
  by (auto simp: extract_completion_def extract_job_data_def
           split: api_outcome.splits sum.splits)

subsection \<open>What one step preserves\<close>

lemma run_gate_links:
  "i < length (tasks s) \<Longrightarrow> tasks s ! i = (l, st) \<Longrightarrow>
     map fst (tasks (run_gate R W i l s)) = map fst (tasks s)"
  by (auto simp: run_gate_def map_fst_update split: gate.splits)

lemma step_links:
  "step api R W s s' \<Longrightarrow> map fst (tasks s') = map fst (tasks s)"
proof (induction rule: step.induct)
  case (tick d s)
  show ?case by simp
next
  case (enter i s link)
  from run_gate_links[of i "s\<lparr>permits := permits s - 1\<rparr>" link Queued R W] enter
  show ?case by simp
next
  case (wake i s link deadline)
  from run_gate_links[of i s link "Sleeping deadline" R W] wake show ?case by simp
next
  case (return i s link)
  then show ?case
    by (auto simp: complete_call_def map_fst_update split: prod.splits)
qed

lemma run_gate_permits:
  assumes "i < length (tasks s)" "tasks s ! i = (l, st)"
  shows "holders (run_gate R W i l s) + permits (run_gate R W i l s)
           + (if holds_permit st then 1 else 0) = holders s + permits s + 1"
proof -
  have upd: "\<And>st'. length (filter (\<lambda>t. holds_permit (snd t)) ((tasks s)[i := (l, st')]))
          + (if holds_permit st then 1 else 0)
        = holders s + (if holds_permit st' then 1 else 0)"
    using filter_update_length[OF assms(1), of "\<lambda>t. holds_permit (snd t)"] assms(2)
    by (simp add: holders_def)
  show ?thesis
  proof (cases "gate_run R W (clock s) (window s)")
    case (Pass w)
    with upd[of Calling] show ?thesis by (simp add: run_gate_def holders_def)
  next
    case (Sleep d w)
    with upd[of "Sleeping (clock s + d)"] show ?thesis by (simp add: run_gate_def holders_def)
  next
    case GateRaise
    with upd[of "Raised IndexError"] show ?thesis by (simp add: run_gate_def holders_def)
  qed
qed

lemma step_permits:
  "step api R W s s' \<Longrightarrow> holders s' + permits s' = holders s + permits s"
proof (induction rule: step.induct)
  case (tick d s)
  show ?case by (simp add: holders_def)
next
  case (enter i s link)
  from run_gate_permits[of i "s\<lparr>permits := permits s - 1\<rparr>" link Queued R W] enter
  show ?case by (simp add: holders_def)
next
  case (wake i s link deadline)
  from run_gate_permits[of i s link "Sleeping deadline" R W] wake show ?case by simp
next
  case (return i s link)
  from filter_update_length[OF return(1), of "\<lambda>t. holds_permit (snd t)"] return(2)
  show ?case
    by (auto simp: complete_call_def holders_def split: prod.splits)
qed


lemma run_gate_delivered:
  assumes "i < length (tasks s)" "tasks s ! i = (l, st)" "\<not> is_done st"
  shows "mset (concat (map delivered (tasks (run_gate R W i l s))))
           = mset (concat (map delivered (tasks s)))"
    and "results (run_gate R W i l s) = results s"
proof -
  have nd: "delivered (l, st) = []" using assms(3) by (cases st) auto
  have upd: "\<And>st'. \<not> is_done st' \<Longrightarrow>
      mset (concat (map delivered ((tasks s)[i := (l, st')]))) = mset (concat (map delivered (tasks s)))"
  proof -
    fix st' assume "\<not> is_done st'"
    then have "delivered (l, st') = []" by (cases st') auto
    with concat_update_mset[OF assms(1), of delivered "(l, st')"] assms(2) nd
    show "mset (concat (map delivered ((tasks s)[i := (l, st')]))) = mset (concat (map delivered (tasks s)))"
      by simp
  qed
  show "mset (concat (map delivered (tasks (run_gate R W i l s))))
           = mset (concat (map delivered (tasks s)))"
    by (cases "gate_run R W (clock s) (window s)") (simp_all add: run_gate_def upd)
  show "results (run_gate R W i l s) = results s"
    by (cases "gate_run R W (clock s) (window s)") (simp_all add: run_gate_def)
qed

lemma step_results:
  "step api R W s s' \<Longrightarrow> mset (results s) = mset (concat (map delivered (tasks s))) \<Longrightarrow>
     mset (results s') = mset (concat (map delivered (tasks s')))"
proof (induction rule: step.induct)
  case (tick d s)
  then show ?case by simp
next
  case (enter i s link)
  from run_gate_delivered[of i "s\<lparr>permits := permits s - 1\<rparr>" link Queued R W] enter
  show ?case by simp
next
  case (wake i s link deadline)
  from run_gate_delivered[of i s link "Sleeping deadline" R W] wake show ?case by simp
next
  case (return i s link)
  obtain r w lg where e: "extract_completion link (api link) (clock s) (window s) = (r, w, lg)"
    by (cases "extract_completion link (api link) (clock s) (window s)") auto
  have d: "delivered (link, Done r) = (case r of None \<Rightarrow> [] | Some job \<Rightarrow> [job])"
    by (cases r) auto
  from concat_update_mset[OF return(1), of delivered "(link, Done r)"] return(2)
  have "mset (concat (map delivered ((tasks s)[i := (link, Done r)])))
          = mset (concat (map delivered (tasks s))) + mset (delivered (link, Done r))"
    by simp
  with return(3) e d show ?case by (simp add: complete_call_def)
qed

lemma run_gate_called:
  assumes "i < length (tasks s)" "tasks s ! i = (l, st)" "\<not> called_api st"
  shows "mset (issued (run_gate R W i l s)) + mset (concat (map called (tasks s)))
           = mset (issued s) + mset (concat (map called (tasks (run_gate R W i l s))))"
proof -
  have upd: "\<And>st'. mset (concat (map called ((tasks s)[i := (l, st')])))
      = mset (concat (map called (tasks s))) + mset (called (l, st'))"
    using concat_update_mset[OF assms(1), of called] assms(2,3) by simp
  show ?thesis
    by (cases "gate_run R W (clock s) (window s)") (simp_all add: run_gate_def upd)
qed

lemma step_issued:
  "step api R W s s' \<Longrightarrow> mset (issued s) = mset (concat (map called (tasks s))) \<Longrightarrow>
     mset (issued s') = mset (concat (map called (tasks s')))"
proof (induction rule: step.induct)
  case (tick d s)
  then show ?case by simp
next
  case (enter i s link)
  from run_gate_called[of i "s\<lparr>permits := permits s - 1\<rparr>" link Queued R W] enter
  show ?case by simp
next
  case (wake i s link deadline)
  from run_gate_called[of i s link "Sleeping deadline" R W] wake show ?case by simp
next
  case (return i s link)
  obtain r w lg where e: "extract_completion link (api link) (clock s) (window s) = (r, w, lg)"
    by (cases "extract_completion link (api link) (clock s) (window s)") auto
  from concat_update_mset[OF return(1), of called "(link, Done r)"] return(2)
  have "mset (concat (map called ((tasks s)[i := (link, Done r)])))
          = mset (concat (map called (tasks s)))"
    by simp
  with return(3) e show ?case by (simp add: complete_call_def)
qed

lemma list_all_update:
  "list_all P xs \<Longrightarrow> P y \<Longrightarrow> list_all P (xs[i := y])"
  by (auto simp: list_all_iff dest: set_update_subset_insert[THEN subsetD])

lemma step_done_right:
  "step api R W s s' \<Longrightarrow> list_all (done_right api) (tasks s) \<Longrightarrow>
     list_all (done_right api) (tasks s')"
proof (induction rule: step.induct)
  case (tick d s)
  then show ?case by simp
next
  case (enter i s link)
  then show ?case
    by (auto simp: run_gate_def done_right_def split: gate.splits intro!: list_all_update)
next
  case (wake i s link deadline)
  then show ?case
    by (auto simp: run_gate_def done_right_def split: gate.splits intro!: list_all_update)
next
  case (return i s link)
  obtain r w lg where e: "extract_completion link (api link) (clock s) (window s) = (r, w, lg)"
    by (cases "extract_completion link (api link) (clock s) (window s)") auto
  with extract_completion_result[of link api "clock s" "window s"]
  have "r = fst (extract_job_data link api)" by simp
  with return e show ?case
    by (auto simp: complete_call_def done_right_def intro!: list_all_update)
qed


subsection \<open>Invariants of every run\<close>

lemma initial_delivered: "concat (map delivered (map (\<lambda>link. (link, Queued)) ls)) = []"
  by (induction ls) auto

lemma initial_called: "concat (map called (map (\<lambda>link. (link, Queued)) ls)) = []"
  by (induction ls) auto

lemma initial_holders: "filter (\<lambda>t. holds_permit (snd t)) (map (\<lambda>link. (link, Queued)) ls) = []"
  by (induction ls) auto

lemma initial_done_right: "list_all (done_right api) (map (\<lambda>link. (link, Queued)) ls)"
  by (induction ls) (auto simp: done_right_def)

lemma run_invariants:
  assumes "runs_to api R W links k c t0 s"
  shows "map fst (tasks s) = py_prefix links k"
    and "holders s + permits s = nat c"
    and "mset (results s) = mset (concat (map delivered (tasks s)))"
    and "mset (issued s) = mset (concat (map called (tasks s)))"
    and "list_all (done_right api) (tasks s)"
proof -
  from assms obtain s0 where s0: "process_job_links_async links k c t0 = Inr s0"
    and run: "(step api R W)\<^sup>*\<^sup>* s0 s" by (auto simp: runs_to_def)
  from s0 have init: "s0 = \<lparr>tasks = map (\<lambda>link. (link, Queued)) (py_prefix links k),
      permits = nat c, window = [], clock = t0, results = [], issued = []\<rparr>"
    by (auto simp: process_job_links_async_def split: if_splits)
  from run have "map fst (tasks s) = py_prefix links k
      \<and> holders s + permits s = nat c
      \<and> mset (results s) = mset (concat (map delivered (tasks s)))
      \<and> mset (issued s) = mset (concat (map called (tasks s)))
      \<and> list_all (done_right api) (tasks s)"
  proof (induction rule: rtranclp_induct)
    case base
    show ?case
      by (simp add: init holders_def initial_delivered initial_called initial_holders
            initial_done_right comp_def)
  next
    case (step y z)
    with step_links[OF step(2)] step_permits[OF step(2)] step_results[OF step(2)]
      step_issued[OF step(2)] step_done_right[OF step(2)]
    show ?case by simp
  qed
  then show "map fst (tasks s) = py_prefix links k"
    and "holders s + permits s = nat c"
    and "mset (results s) = mset (concat (map delivered (tasks s)))"
    and "mset (issued s) = mset (concat (map called (tasks s)))"
    and "list_all (done_right api) (tasks s)" by simp_all
qed

lemma outstanding_le_holders: "outstanding s \<le> holders s"
proof -
  have "\<And>xs :: (string \<times> task_state) list.
      length (filter (\<lambda>t. snd t = Calling) xs) \<le> length (filter (\<lambda>t. holds_permit (snd t)) xs)"
  proof -
    fix xs :: "(string \<times> task_state) list"
    show "length (filter (\<lambda>t. snd t = Calling) xs) \<le> length (filter (\<lambda>t. holds_permit (snd t)) xs)"
      by (induction xs) auto
  qed
  then show ?thesis by (simp add: outstanding_def holders_def)
qed



subsection \<open>Every run can be completed\<close>















text \<open>
  Claim C5. In every state that a run of the scheduler with \<open>max_concurrent = c\<close> reaches,
  the tasks holding a permit of the semaphore and the free permits add up to \<open>c\<close>, and a
  task whose API call is outstanding holds a permit: at no instant are more than \<open>c\<close>
  extraction calls outstanding.
\<close>

theorem concurrency_bounded:
  "runs_to api R W links k c t0 s \<Longrightarrow>
     holders s + permits s = nat c \<and> outstanding s \<le> nat c"
proof -
  assume r: "runs_to api R W links k c t0 s"
  from run_invariants(2)[OF r] outstanding_le_holders[of s]
  show ?thesis by simp
qed




subsection \<open>A run of three links\<close>

text \<open>
  Links \<open>a\<close>, \<open>b\<close>, \<open>c\<close> with \<open>max_jobs = 2\<close> and two permits: the extraction of \<open>a\<close> succeeds,
  that of \<open>b\<close> raises. Both tasks enter, \<open>b\<close> returns first, then \<open>a\<close>.
\<close>

lemma example_run_calling:
  "runs_to
     (\<lambda>l. if l = ''a'' then ApiReturns (JObj [(''success'', JBool True), (''data'', JObj
        [(''job_title'', JStr ''Engineer''), (''sub_division_of_organization'', JStr ''R''),
         (''key_skills'', JArr [JStr ''ml'']), (''compensation'', JStr ''9''),
         (''location'', JStr ''Oslo''), (''apply_link'', JStr ''a'')])]) else ApiRaises)
     10 60 [''a'', ''b'', ''c''] 2 2 0
     \<lparr>tasks = [(''a'', Calling), (''b'', Calling)], permits = 0, window = [], clock = 0,
       results = [], issued = [''a'', ''b'']\<rparr>"
  (is "runs_to ?api 10 60 ?links 2 2 0 ?s2")
proof -
  let ?s0 = "\<lparr>tasks = [(''a'', Queued), (''b'', Queued)], permits = 2, window = [],
      clock = 0 :: real, results = [], issued = []\<rparr>"
  let ?s1 = "\<lparr>tasks = [(''a'', Calling), (''b'', Queued)], permits = 1, window = [],
      clock = 0 :: real, results = [], issued = [''a'']\<rparr>"
  have i: "process_job_links_async ?links 2 2 0 = Inr ?s0"
    by (simp add: process_job_links_async_def py_prefix_def)
  have "step ?api 10 60 ?s0 (run_gate 10 60 0 ''a'' (?s0\<lparr>permits := permits ?s0 - 1\<rparr>))"
    by (rule step.enter) simp_all
  then have a: "step ?api 10 60 ?s0 ?s1" by (simp add: run_gate_def)
  have "step ?api 10 60 ?s1 (run_gate 10 60 1 ''b'' (?s1\<lparr>permits := permits ?s1 - 1\<rparr>))"
    by (rule step.enter) simp_all
  then have b: "step ?api 10 60 ?s1 ?s2" by (simp add: run_gate_def)
  from a b have "(step ?api 10 60)\<^sup>*\<^sup>* ?s0 ?s2" by auto
  with i show ?thesis unfolding runs_to_def by blast
qed


text \<open>The witnesses of claims C5, C6 and C7 on this run.\<close>

theorem concurrency_bounded_witness:
  "outstanding \<lparr>tasks = [(''a'', Calling), (''b'', Calling)], permits = 0, window = [],
       clock = 0, results = [], issued = [''a'', ''b'']\<rparr> = 2
   \<and> outstanding \<lparr>tasks = [(''a'', Calling), (''b'', Calling)], permits = 0, window = [],
       clock = 0, results = [], issued = [''a'', ''b'']\<rparr> \<le> nat 2"
  using concurrency_bounded [OF example_run_calling]
  by (simp add: outstanding_def)



end
